theory Spec2Isabelle
  imports Complex_Main
begin

section \<open>Tree IR (node/IR.py)\<close>

text \<open>
  The nodes of the tree IR are frozen dataclasses compared structurally.  Literal
  values are Python floats; they are modelled as reals, so rounding, overflow and
  the special values of IEEE arithmetic are outside the model.  A keyword
  dictionary keeps its insertion order and is modelled as an association list
  with distinct keys.
\<close>

datatype node =
    ValueNode real
  | FunctionNode string "node list"
  | RefNode string
  | AssignNode string node
  | GetNode int int node
  | SetNode int int node node
  | ExecuteNode "node list"
  | CallNode string "node list" "(string \<times> node) list"
  | StarredNode bool
  | IfNode node node node
  | WhileNode node node

text \<open>The exceptions the modelled code raises, as values.\<close>

datatype error =
    TypeError string
  | ValueError string
  | RuntimeError string
  | NotImplementedError string
  | IndexError
  | KeyError string
  | AttributeError string
  | ZeroDivisionError

definition ebind :: "error + 'a \<Rightarrow> ('a \<Rightarrow> error + 'b) \<Rightarrow> error + 'b" where
  "ebind m f = (case m of Inl e \<Rightarrow> Inl e | Inr x \<Rightarrow> f x)"

text \<open>\<^verbatim>\<open>ExecuteNode.empty\<close>: an \<^verbatim>\<open>ExecuteNode\<close> with no nodes.\<close>

fun empty_node :: "node \<Rightarrow> bool" where
  "empty_node (ExecuteNode ns) = (ns = [])"
| "empty_node _ = False"

definition F_empty :: node where
  "F_empty = ExecuteNode []"

definition F_true :: node where
  "F_true = ValueNode 1"

definition F_false :: node where
  "F_false = ValueNode 0"

text \<open>
  \<^verbatim>\<open>Functions.Execute\<close>: a single node is returned as it is; otherwise empty
  sequences are dropped and nested sequences are spliced in, one level deep.
\<close>

fun splice :: "node \<Rightarrow> node list" where
  "splice (ExecuteNode ns) = ns"
| "splice n = [n]"

definition F_Execute :: "node list \<Rightarrow> node" where
  "F_Execute nodes =
     (if length nodes = 1 then hd nodes else ExecuteNode (concat (map splice nodes)))"

text \<open>
  \<^verbatim>\<open>Functions.If\<close>: an empty then-branch becomes \<^verbatim>\<open>F.true\<close>; \<^emph>\<open>otherwise\<close>
  (\<^verbatim>\<open>elif\<close>) an empty else-branch becomes \<^verbatim>\<open>F.false\<close>.
\<close>

definition F_If :: "node \<Rightarrow> node \<Rightarrow> node \<Rightarrow> node" where
  "F_If condition then_node orelse =
     (if empty_node then_node then IfNode condition F_true orelse
      else if empty_node orelse then IfNode condition then_node F_false
      else IfNode condition then_node orelse)"

text \<open>\<^verbatim>\<open>Functions.And\<close> and \<^verbatim>\<open>Functions.Or\<close>, variadic in their tail.\<close>

fun F_And :: "node \<Rightarrow> node list \<Rightarrow> node" where
  "F_And condition [] = condition"
| "F_And condition (a # args) = F_If condition (F_And a args) F_false"

fun F_Or :: "node \<Rightarrow> node list \<Rightarrow> node" where
  "F_Or condition [] = condition"
| "F_Or condition (a # args) = F_If condition F_true (F_Or a args)"

text \<open>
  \<^verbatim>\<open>FunctionMetaClass.__getattr__\<close>: the constructor of a built-in call
  refuses an empty sequence among its arguments.
\<close>

definition create_function_node :: "string \<Rightarrow> node list \<Rightarrow> error + node" where
  "create_function_node name nodes =
     (if list_ex empty_node nodes
      then Inl (ValueError ''Cannot create a function node with empty node in arguments'')
      else Inr (FunctionNode name nodes))"

text \<open>
  \<^verbatim>\<open>Functions.Assign\<close>: an assignment of a sequence assigns its last node and
  keeps the nodes before it; \<^verbatim>\<open>value.nodes[-1]\<close> raises \<^verbatim>\<open>IndexError\<close> on the
  empty sequence.
\<close>

lemma size_last_less: "ns \<noteq> [] \<Longrightarrow> size (last ns) < Suc (size_list size ns)"
  by (induction ns) auto

function F_Assign :: "string \<Rightarrow> node \<Rightarrow> error + node" where
  "F_Assign name (ExecuteNode ns) =
     (if ns = [] then Inl IndexError
      else (case F_Assign name (last ns) of
              Inl e \<Rightarrow> Inl e
            | Inr a \<Rightarrow> Inr (F_Execute (butlast ns @ [a]))))"
| "F_Assign name (ValueNode v) = Inr (AssignNode name (ValueNode v))"
| "F_Assign name (FunctionNode f args) = Inr (AssignNode name (FunctionNode f args))"
| "F_Assign name (RefNode r) = Inr (AssignNode name (RefNode r))"
| "F_Assign name (AssignNode n v) = Inr (AssignNode name (AssignNode n v))"
| "F_Assign name (GetNode b i off) = Inr (AssignNode name (GetNode b i off))"
| "F_Assign name (SetNode b i off v) = Inr (AssignNode name (SetNode b i off v))"
| "F_Assign name (CallNode f args kwargs) = Inr (AssignNode name (CallNode f args kwargs))"
| "F_Assign name (StarredNode nested) = Inr (AssignNode name (StarredNode nested))"
| "F_Assign name (IfNode c t e) = Inr (AssignNode name (IfNode c t e))"
| "F_Assign name (WhileNode c b) = Inr (AssignNode name (WhileNode c b))"
  by pat_completeness auto
termination
  by (relation "measure (\<lambda>(name, n). size n)") (auto simp: size_last_less)

section \<open>Compiled functions (compiler/function.py)\<close>

datatype parameter = Parameter (param_name: string) (param_default: "node option")

datatype parameter_list =
  ParameterList (pl_params: "parameter list") (va_args: "string option")

text \<open>
  \<^verbatim>\<open>CompiledOverloadedFunction\<close> is a \<^verbatim>\<open>CompiledFunction\<close> (the base
  registration's name, parameters and body) with the list of its overloads.
\<close>

datatype compiled_function =
    CompiledFunction string parameter_list node
  | CompiledOverloadedFunction string parameter_list node "compiled_function list"

fun cf_name :: "compiled_function \<Rightarrow> string" where
  "cf_name (CompiledFunction n p b) = n"
| "cf_name (CompiledOverloadedFunction n p b ovs) = n"

fun cf_params :: "compiled_function \<Rightarrow> parameter_list" where
  "cf_params (CompiledFunction n p b) = p"
| "cf_params (CompiledOverloadedFunction n p b ovs) = p"

fun cf_node :: "compiled_function \<Rightarrow> node" where
  "cf_node (CompiledFunction n p b) = b"
| "cf_node (CompiledOverloadedFunction n p b ovs) = b"

text \<open>Python's \<^verbatim>\<open>str\<close> of a natural number, and \<^verbatim>\<open>str.replace('.', '$')\<close>.\<close>

fun str_nat :: "nat \<Rightarrow> string" where
  "str_nat n =
     (if n < 10 then [char_of (48 + n)]
      else str_nat (n div 10) @ [char_of (48 + n mod 10)])"

definition replace_dots :: "string \<Rightarrow> string" where
  "replace_dots s = map (\<lambda>c. if c = CHR ''.'' then CHR ''$'' else c) s"

text \<open>\<^verbatim>\<open>CompiledFunction.param\<close>: the register of a parameter at a call.\<close>

definition param :: "compiled_function \<Rightarrow> string \<Rightarrow> string" where
  "param f name = replace_dots (cf_name f @ ''$'' @ name)"

text \<open>
  The name of the \<open>i\<close>-th surplus argument (counted from 0), as the f-string
  \<^verbatim>\<open>f"{self.params.va_args}${i+1}"\<close> formats it.
\<close>

definition va_key :: "compiled_function \<Rightarrow> nat \<Rightarrow> string" where
  "va_key f i =
     (case va_args (cf_params f) of None \<Rightarrow> ''None'' | Some v \<Rightarrow> v) @ ''$'' @ str_nat (i + 1)"

definition va_ref :: "compiled_function \<Rightarrow> nat \<Rightarrow> node" where
  "va_ref f i = RefNode (param f (va_key f i))"

text \<open>
  \<^verbatim>\<open>_resolve_nested\<close>: \<^verbatim>\<open>functools.reduce\<close> without an initial value over the
  registers in reversed order; on no register it raises \<^verbatim>\<open>TypeError\<close>.
\<close>

definition resolve_nested ::
  "compiled_function \<Rightarrow> nat \<Rightarrow> (node \<Rightarrow> node \<Rightarrow> node) \<Rightarrow> error + node" where
  "resolve_nested f arg_count unit =
     (case rev [0..<arg_count] of
        [] \<Rightarrow> Inl (TypeError ''reduce() of empty iterable with no initial value'')
      | i # js \<Rightarrow> Inr (foldl (\<lambda>a b. unit b a) (va_ref f i) (map (va_ref f) js)))"

text \<open>
  \<^verbatim>\<open>_resolve_starred\<close>, a dispatch on the node's class.  Built-in calls, user
  calls and the placeholder have a case of their own; every other node goes through
  its \<^verbatim>\<open>apply\<close>, which for \<^verbatim>\<open>ValueNode\<close>, \<^verbatim>\<open>RefNode\<close>, \<^verbatim>\<open>GetNode\<close> and
  \<^verbatim>\<open>SetNode\<close> is the base class's and returns the node unchanged.
\<close>

fun resolve_starred :: "compiled_function \<Rightarrow> node \<Rightarrow> nat \<Rightarrow> error + node"
  and resolve_starred_list :: "compiled_function \<Rightarrow> node list \<Rightarrow> nat \<Rightarrow> error + node list"
where
  "resolve_starred f (FunctionNode name args) n =
     (if args = [] then Inr (FunctionNode name args)
      else (case last args of
          StarredNode nested \<Rightarrow>
            (if nested then
               ebind (resolve_nested f n (\<lambda>left right. FunctionNode name [left, right]))
                 (\<lambda>folded. if length args = 1 then Inr folded
                            else Inr (FunctionNode name [hd args, folded]))
             else Inr (FunctionNode name (butlast args @ map (va_ref f) [0..<n])))
        | _ \<Rightarrow> ebind (resolve_starred_list f args n) (\<lambda>args'. Inr (FunctionNode name args'))))"
| "resolve_starred f (CallNode name args kwargs) n =
     (if args = [] then Inr (CallNode name args kwargs)
      else (case last args of
          StarredNode nested \<Rightarrow>
            (if nested then
               ebind (resolve_nested f n (\<lambda>left right. CallNode name [left, right] kwargs))
                 (\<lambda>folded. if length args = 1 then Inr folded
                            else Inr (CallNode name [hd args, folded] kwargs))
             else Inr (CallNode name (butlast args @ map (va_ref f) [0..<n]) kwargs))
        | _ \<Rightarrow> ebind (resolve_starred_list f args n) (\<lambda>args'. Inr (CallNode name args' kwargs))))"
| "resolve_starred f (StarredNode nested) n = Inl (TypeError ''StarredNode not resolved'')"
| "resolve_starred f (ValueNode v) n = Inr (ValueNode v)"
| "resolve_starred f (RefNode r) n = Inr (RefNode r)"
| "resolve_starred f (GetNode b i off) n = Inr (GetNode b i off)"
| "resolve_starred f (SetNode b i off v) n = Inr (SetNode b i off v)"
| "resolve_starred f (AssignNode name v) n =
     ebind (resolve_starred f v n) (\<lambda>v'. F_Assign name v')"
| "resolve_starred f (ExecuteNode ns) n =
     ebind (resolve_starred_list f ns n) (\<lambda>ns'. Inr (F_Execute ns'))"
| "resolve_starred f (IfNode c t e) n =
     ebind (resolve_starred f c n) (\<lambda>c'.
     ebind (resolve_starred f t n) (\<lambda>t'.
     ebind (resolve_starred f e n) (\<lambda>e'. Inr (F_If c' t' e'))))"
| "resolve_starred f (WhileNode c b) n =
     ebind (resolve_starred f c n) (\<lambda>c'.
     ebind (resolve_starred f b n) (\<lambda>b'. Inr (WhileNode c' b')))"
| "resolve_starred_list f [] n = Inr []"
| "resolve_starred_list f (x # xs) n =
     ebind (resolve_starred f x n) (\<lambda>x'.
     ebind (resolve_starred_list f xs n) (\<lambda>xs'. Inr (x' # xs')))"

text \<open>
  A Python dictionary keeps insertion order: storing under a key it has replaces
  the value where it stands, storing under a new key appends.
\<close>

fun dict_set :: "string \<Rightarrow> 'v \<Rightarrow> (string \<times> 'v) list \<Rightarrow> (string \<times> 'v) list" where
  "dict_set k v [] = [(k, v)]"
| "dict_set k v ((k', v') # d) = (if k' = k then (k, v) # d else (k', v') # dict_set k v d)"

definition dict_has :: "string \<Rightarrow> (string \<times> 'v) list \<Rightarrow> bool" where
  "dict_has k d = (k \<in> set (map fst d))"

text \<open>The three binding loops of \<^verbatim>\<open>CompiledFunction.call\<close>.\<close>

fun bind_positional ::
  "parameter list \<Rightarrow> node list \<Rightarrow> (string \<times> node) list \<Rightarrow> (string \<times> node) list" where
  "bind_positional (p # ps) (a # args) kwargs =
     bind_positional ps args (dict_set (param_name p) a kwargs)"
| "bind_positional ps args kwargs = kwargs"

fun bind_surplus ::
  "compiled_function \<Rightarrow> nat \<Rightarrow> node list \<Rightarrow> (string \<times> node) list \<Rightarrow> (string \<times> node) list" where
  "bind_surplus f i [] kwargs = kwargs"
| "bind_surplus f i (a # args) kwargs = bind_surplus f (i + 1) args (dict_set (va_key f i) a kwargs)"

fun bind_defaults ::
  "compiled_function \<Rightarrow> parameter list \<Rightarrow> (string \<times> node) list \<Rightarrow> error + (string \<times> node) list" where
  "bind_defaults f [] kwargs = Inr kwargs"
| "bind_defaults f (p # ps) kwargs =
     (if \<not> dict_has (param_name p) kwargs then
        (case param_default p of
           Some d \<Rightarrow> bind_defaults f ps (dict_set (param_name p) d kwargs)
         | None \<Rightarrow> Inl (TypeError (''Function '' @ cf_name f @ '' missing parameter '' @ param_name p)))
      else bind_defaults f ps kwargs)"

definition va_declared :: "compiled_function \<Rightarrow> bool" where
  "va_declared f = (case va_args (cf_params f) of None \<Rightarrow> False | Some v \<Rightarrow> v \<noteq> [])"

text \<open>The dictionary of bound registers after the three loops.\<close>

definition bind_args ::
  "compiled_function \<Rightarrow> node list \<Rightarrow> (string \<times> node) list \<Rightarrow> error + (string \<times> node) list" where
  "bind_args f args kwargs =
     (let ps = pl_params (cf_params f);
          kw1 = bind_positional ps args kwargs
      in ebind
           (if length args > length ps then
              (if va_declared f then Inr (bind_surplus f 0 (drop (length ps) args) kw1)
               else Inl (TypeError (''Too many arguments for '' @ cf_name f)))
            else Inr kw1)
           (\<lambda>kw2. bind_defaults f ps kw2))"

fun assign_all :: "compiled_function \<Rightarrow> (string \<times> node) list \<Rightarrow> error + node list" where
  "assign_all f [] = Inr []"
| "assign_all f ((k, v) # kwargs) =
     ebind (F_Assign (param f k) v) (\<lambda>a.
     ebind (assign_all f kwargs) (\<lambda>as. Inr (a # as)))"

text \<open>\<^verbatim>\<open>CompiledFunction.call\<close>: calling is inlining.\<close>

definition base_call ::
  "compiled_function \<Rightarrow> node list \<Rightarrow> (string \<times> node) list \<Rightarrow> error + node" where
  "base_call f args kwargs =
     ebind (bind_args f args kwargs) (\<lambda>kw.
     ebind (if length args > length (pl_params (cf_params f))
            then resolve_starred f (cf_node f) (length args - length (pl_params (cf_params f)))
            else Inr (cf_node f)) (\<lambda>body.
     ebind (assign_all f kw) (\<lambda>assigns. Inr (F_Execute (assigns @ [body])))))"

text \<open>
  \<^verbatim>\<open>CompiledOverloadedFunction.call\<close>: the base registration first; on a
  \<^verbatim>\<open>TypeError\<close> the overloads in order, each \<^verbatim>\<open>TypeError\<close> replacing the one kept
  in \<^verbatim>\<open>err\<close>; \<^verbatim>\<open>err\<close> is raised when the overloads are exhausted.  An exception of
  another class is not caught.
\<close>

fun call :: "compiled_function \<Rightarrow> node list \<Rightarrow> (string \<times> node) list \<Rightarrow> error + node"
  and try_overloads ::
    "compiled_function list \<Rightarrow> error \<Rightarrow> node list \<Rightarrow> (string \<times> node) list \<Rightarrow> error + node"
where
  "call (CompiledFunction n p b) args kwargs = base_call (CompiledFunction n p b) args kwargs"
| "call (CompiledOverloadedFunction n p b ovs) args kwargs =
     (case base_call (CompiledOverloadedFunction n p b ovs) args kwargs of
        Inl (TypeError m) \<Rightarrow> try_overloads ovs (TypeError m) args kwargs
      | r \<Rightarrow> r)"
| "try_overloads [] err args kwargs = Inl err"
| "try_overloads (ov # ovs) err args kwargs =
     (case call ov args kwargs of
        Inl (TypeError m) \<Rightarrow> try_overloads ovs (TypeError m) args kwargs
      | r \<Rightarrow> r)"

section \<open>Linking (compiler/compile.py)\<close>

text \<open>
  \<^verbatim>\<open>CompileOutput\<close>: the entry function's name and the compiled functions by
  name.  \<^verbatim>\<open>_link\<close> dispatches on the node's class: a \<^verbatim>\<open>CallNode\<close> is inlined,
  every other node goes through its \<^verbatim>\<open>apply\<close>.  \<^verbatim>\<open>GetNode\<close>, \<^verbatim>\<open>SetNode\<close>,
  \<^verbatim>\<open>ValueNode\<close>, \<^verbatim>\<open>RefNode\<close> and \<^verbatim>\<open>StarredNode\<close> inherit the base class's
  \<^verbatim>\<open>apply\<close>, which returns the node itself.  The set \<^verbatim>\<open>recursive\<close> is extended for
  the inlined body only (\<^verbatim>\<open>add\<close> before, \<^verbatim>\<open>remove\<close> after), so it is passed down.
  The recursion ends because each inlining takes one more function name into the set.
\<close>

datatype compile_output =
  CompileOutput (co_entry: string) (co_functions: "(string \<times> compiled_function) list")

definition pending :: "(string \<times> compiled_function) list \<Rightarrow> string set \<Rightarrow> nat" where
  "pending fs recursive = card {k \<in> set (map fst fs). k \<notin> recursive}"

lemma pending_insert:
  "map_of fs name = Some f \<Longrightarrow> name \<notin> recursive \<Longrightarrow>
     pending fs (insert name recursive) < pending fs recursive"
proof -
  assume a: "map_of fs name = Some f" "name \<notin> recursive"
  then have "name \<in> fst ` set fs" by (auto dest: map_of_SomeD simp: rev_image_eqI)
  then have "{k \<in> set (map fst fs). k \<notin> insert name recursive} \<subset> {k \<in> set (map fst fs). k \<notin> recursive}"
    using a(2) by auto
  then show ?thesis unfolding pending_def by (intro psubset_card_mono) auto
qed

function link_node ::
    "(string \<times> compiled_function) list \<Rightarrow> node \<Rightarrow> string set \<Rightarrow> error + node"
  and link_list ::
    "(string \<times> compiled_function) list \<Rightarrow> node list \<Rightarrow> string set \<Rightarrow> error + node list"
  and link_kwargs ::
    "(string \<times> compiled_function) list \<Rightarrow> (string \<times> node) list \<Rightarrow> string set
       \<Rightarrow> error + (string \<times> node) list"
where
  "link_node fs (CallNode name args kwargs) recursive =
     ebind (link_list fs args recursive) (\<lambda>args'.
     ebind (link_kwargs fs kwargs recursive) (\<lambda>kwargs'.
       if name \<in> recursive then Inl (RuntimeError (''Recursive call detected: '' @ name))
       else (case map_of fs name of
               None \<Rightarrow> Inl (KeyError name)
             | Some f \<Rightarrow>
                 ebind (call f args' kwargs') (\<lambda>inlined.
                   link_node fs inlined (insert name recursive)))))"
| "link_node fs (ValueNode v) recursive = Inr (ValueNode v)"
| "link_node fs (RefNode r) recursive = Inr (RefNode r)"
| "link_node fs (GetNode b i off) recursive = Inr (GetNode b i off)"
| "link_node fs (SetNode b i off v) recursive = Inr (SetNode b i off v)"
| "link_node fs (StarredNode nested) recursive = Inr (StarredNode nested)"
| "link_node fs (FunctionNode name args) recursive =
     ebind (link_list fs args recursive) (\<lambda>args'. Inr (FunctionNode name args'))"
| "link_node fs (AssignNode name v) recursive =
     ebind (link_node fs v recursive) (\<lambda>v'. F_Assign name v')"
| "link_node fs (ExecuteNode ns) recursive =
     ebind (link_list fs ns recursive) (\<lambda>ns'. Inr (F_Execute ns'))"
| "link_node fs (IfNode c t e) recursive =
     ebind (link_node fs c recursive) (\<lambda>c'.
     ebind (link_node fs t recursive) (\<lambda>t'.
     ebind (link_node fs e recursive) (\<lambda>e'. Inr (F_If c' t' e'))))"
| "link_node fs (WhileNode c b) recursive =
     ebind (link_node fs c recursive) (\<lambda>c'.
     ebind (link_node fs b recursive) (\<lambda>b'. Inr (WhileNode c' b')))"
| "link_list fs [] recursive = Inr []"
| "link_list fs (x # xs) recursive =
     ebind (link_node fs x recursive) (\<lambda>x'.
     ebind (link_list fs xs recursive) (\<lambda>xs'. Inr (x' # xs')))"
| "link_kwargs fs [] recursive = Inr []"
| "link_kwargs fs ((k, v) # kwargs) recursive =
     ebind (link_node fs v recursive) (\<lambda>v'.
     ebind (link_kwargs fs kwargs recursive) (\<lambda>kwargs'. Inr ((k, v') # kwargs')))"
  by pat_completeness auto
termination
  by (relation "inv_image (less_than <*lex*> less_than)
        (\<lambda>x. case x of
           Inl (fs, n, r) \<Rightarrow> (pending fs r, size n)
         | Inr (Inl (fs, ns, r)) \<Rightarrow> (pending fs r, size_list size ns)
         | Inr (Inr (fs, kw, r)) \<Rightarrow> (pending fs r, size_list (size_prod (\<lambda>_. 0) size) kw))")
     (auto simp: pending_insert)

text \<open>\<^verbatim>\<open>CompileOutput.link\<close>, from the entry function's body and the empty set.\<close>

definition link :: "compile_output \<Rightarrow> error + node" where
  "link out =
     (case map_of (co_functions out) (co_entry out) of
        None \<Rightarrow> Inl (KeyError (co_entry out))
      | Some f \<Rightarrow> link_node (co_functions out) (cf_node f) {})"

text \<open>Whether a \<^verbatim>\<open>CallNode\<close> occurs anywhere in a tree.\<close>

fun has_call :: "node \<Rightarrow> bool" where
  "has_call (CallNode name args kwargs) = True"
| "has_call (ValueNode v) = False"
| "has_call (RefNode r) = False"
| "has_call (StarredNode nested) = False"
| "has_call (GetNode b i off) = has_call off"
| "has_call (SetNode b i off v) = (has_call off \<or> has_call v)"
| "has_call (FunctionNode name args) = list_ex has_call args"
| "has_call (AssignNode name v) = has_call v"
| "has_call (ExecuteNode ns) = list_ex has_call ns"
| "has_call (IfNode c t e) = (has_call c \<or> has_call t \<or> has_call e)"
| "has_call (WhileNode c b) = (has_call c \<or> has_call b)"

text \<open>Whether a \<^verbatim>\<open>CallNode\<close> occurs outside the operands of a \<^verbatim>\<open>GetNode\<close> or \<^verbatim>\<open>SetNode\<close>.\<close>

fun open_call :: "node \<Rightarrow> bool" where
  "open_call (CallNode name args kwargs) = True"
| "open_call (ValueNode v) = False"
| "open_call (RefNode r) = False"
| "open_call (StarredNode nested) = False"
| "open_call (GetNode b i off) = False"
| "open_call (SetNode b i off v) = False"
| "open_call (FunctionNode name args) = list_ex open_call args"
| "open_call (AssignNode name v) = open_call v"
| "open_call (ExecuteNode ns) = list_ex open_call ns"
| "open_call (IfNode c t e) = (open_call c \<or> open_call t \<or> open_call e)"
| "open_call (WhileNode c b) = (open_call c \<or> open_call b)"

section \<open>Flow graph (node/flow.py)\<close>

text \<open>
  Expressions, statements and flows are frozen dataclasses; an execute block holds
  expressions and statements side by side (\<^verbatim>\<open>List[Union[Expr, Statement]]\<close>).  Python
  does not enforce the declared class of a field, and the lowering does store a
  statement where an expression is declared (\<^verbatim>\<open>transform_SetNode\<close> returns a
  \<^verbatim>\<open>SetStatement\<close>, which its callers keep as the value of an assignment or as the
  condition of a switch).  The objects of the classes \<^verbatim>\<open>Expr\<close> and \<^verbatim>\<open>Statement\<close>
  are therefore one type, and \<open>is_Statement\<close> is \<^verbatim>\<open>isinstance(x, Statement)\<close>.
\<close>

datatype element =
    ValueExpr real
  | FunctionExpr string "element list"
  | RefExpr string
  | GetExpr int int element
  | AssignStatement string element bool
  | SetStatement int int element element

fun is_Statement :: "element \<Rightarrow> bool" where
  "is_Statement (AssignStatement name v mutable) = True"
| "is_Statement (SetStatement b i off v) = True"
| "is_Statement _ = False"

datatype flow =
    ExecuteFlow "element list" "flow option"
  | SwitchFlow string element "(element \<times> flow) list" "flow option" "flow option"
  | LoopFlow element flow "flow option"

text \<open>\<^verbatim>\<open>Flow.attach\<close>: append a flow at the end of the chain of continuations.\<close>

fun attach :: "flow \<Rightarrow> flow \<Rightarrow> flow" where
  "attach (ExecuteFlow nodes (Some nx)) fl = ExecuteFlow nodes (Some (attach nx fl))"
| "attach (ExecuteFlow nodes None) fl =
     (case fl of
        ExecuteFlow nodes' nx' \<Rightarrow> ExecuteFlow (nodes @ nodes') nx'
      | _ \<Rightarrow> ExecuteFlow nodes (Some fl))"
| "attach (SwitchFlow r c cases d (Some nx)) fl = SwitchFlow r c cases d (Some (attach nx fl))"
| "attach (SwitchFlow r c cases d None) fl = SwitchFlow r c cases d (Some fl)"
| "attach (LoopFlow c body (Some nx)) fl = LoopFlow c body (Some (attach nx fl))"
| "attach (LoopFlow c body None) fl = LoopFlow c body (Some fl)"

text \<open>
  \<^verbatim>\<open>Flow.set_result\<close>: make the end of the chain write the block's value into
  \<open>result\<close>.  \<^verbatim>\<open>self.nodes[-1]\<close> raises \<^verbatim>\<open>IndexError\<close> on an empty block.
\<close>

fun set_result :: "flow \<Rightarrow> string \<Rightarrow> error + flow" where
  "set_result (ExecuteFlow nodes (Some nx)) result =
     ebind (set_result nx result) (\<lambda>nx'. Inr (ExecuteFlow nodes (Some nx')))"
| "set_result (ExecuteFlow nodes None) result =
     (if nodes = [] then Inl IndexError
      else if is_Statement (last nodes)
        then Inr (ExecuteFlow (nodes @ [AssignStatement result (ValueExpr 0) True]) None)
      else Inr (ExecuteFlow (butlast nodes @ [AssignStatement result (last nodes) True]) None))"
| "set_result (SwitchFlow r c cases d (Some nx)) result =
     ebind (set_result nx result) (\<lambda>nx'. Inr (SwitchFlow r c cases d (Some nx')))"
| "set_result (SwitchFlow r c cases d None) result =
     Inr (attach (SwitchFlow r c cases d None)
            (ExecuteFlow [AssignStatement result (RefExpr r) True] None))"
| "set_result (LoopFlow c body nx) result = Inr (LoopFlow c body nx)"

section \<open>Constant folding (optimizer/constant.py)\<close>

fun is_value :: "element \<Rightarrow> bool" where
  "is_value (ValueExpr v) = True"
| "is_value _ = False"

fun the_value :: "element \<Rightarrow> real" where
  "the_value (ValueExpr v) = v"
| "the_value _ = 0"

definition Value_bool :: "bool \<Rightarrow> element" where
  "Value_bool b = ValueExpr (if b then 1 else 0)"

text \<open>
  \<^verbatim>\<open>_fold_quad\<close>: the literals are accumulated (sum from 0, product from 1), the
  other operands kept in order; the accumulated literal is put in front only when it
  is truthy, that is non-zero; an empty result is replaced by the neutral literal.
\<close>

definition fold_quad :: "bool \<Rightarrow> element list \<Rightarrow> element list" where
  "fold_quad is_add nodes =
     (let constant = foldl (\<lambda>c v. if is_add then c + v else c * v) (if is_add then 0 else 1)
                       (map the_value (filter is_value nodes));
          result = filter (\<lambda>n. \<not> is_value n) nodes;
          result = (if constant \<noteq> 0 then ValueExpr constant # result else result)
      in if result = [] then [if is_add then ValueExpr 0 else ValueExpr 1] else result)"

definition fold_Add :: "element list \<Rightarrow> error + element" where
  "fold_Add nodes =
     (let result = fold_quad True nodes
      in if length result = 1 then Inr (hd result) else Inr (FunctionExpr ''Add'' result))"

definition fold_Multiply :: "element list \<Rightarrow> error + element" where
  "fold_Multiply nodes =
     (let result = fold_quad False nodes
      in if length result = 1 then Inr (hd result) else Inr (FunctionExpr ''Multiply'' result))"

definition fold_Subtract :: "element list \<Rightarrow> error + element" where
  "fold_Subtract nodes =
     (case nodes of
        [] \<Rightarrow> Inl IndexError
      | head # rest \<Rightarrow>
          if rest = [] then Inr head
          else (let tail = fold_quad True rest
                in if is_value head \<and> is_value (hd tail) then
                     (let head' = ValueExpr (the_value head - the_value (hd tail))
                      in if tl tail = [] then Inr head'
                         else Inr (FunctionExpr ''Sub'' (head' # tl tail)))
                   else Inr (FunctionExpr ''Sub'' (head # tail))))"

definition fold_Divide :: "element list \<Rightarrow> error + element" where
  "fold_Divide nodes =
     (case nodes of
        [] \<Rightarrow> Inl IndexError
      | head # rest \<Rightarrow>
          if rest = [] then Inr head
          else (let tail = fold_quad False rest
                in if is_value head \<and> is_value (hd tail) then
                     (if the_value (hd tail) = 0 then Inl ZeroDivisionError
                      else (let head' = ValueExpr (the_value head / the_value (hd tail))
                            in if tl tail = [] then Inr head'
                               else Inr (FunctionExpr ''Divide'' (head' # tl tail))))
                   else Inr (FunctionExpr ''Divide'' (head # tail))))"

text \<open>
  The folds of fixed arity are called as \<^verbatim>\<open>fold(*args)\<close>: another number of
  arguments raises \<^verbatim>\<open>TypeError\<close>.
\<close>

definition arity_error :: "string \<Rightarrow> error" where
  "arity_error name = TypeError (''fold_'' @ name @ ''() called with a wrong number of arguments'')"

definition fold_binary ::
  "string \<Rightarrow> (real \<Rightarrow> real \<Rightarrow> element) \<Rightarrow> element list \<Rightarrow> error + element" where
  "fold_binary name f nodes =
     (case nodes of
        [a, b] \<Rightarrow> if is_value a \<and> is_value b then Inr (f (the_value a) (the_value b))
                  else Inr (FunctionExpr name [a, b])
      | _ \<Rightarrow> Inl (arity_error name))"

definition fold_unary ::
  "string \<Rightarrow> (real \<Rightarrow> error + element) \<Rightarrow> (element \<Rightarrow> element) \<Rightarrow> element list \<Rightarrow> error + element" where
  "fold_unary name f otherwise nodes =
     (case nodes of
        [a] \<Rightarrow> if is_value a then f (the_value a) else Inr (otherwise a)
      | _ \<Rightarrow> Inl (arity_error name))"

definition py_round :: "real \<Rightarrow> int" where
  "py_round x =
     (let f = \<lfloor>x\<rfloor>; d = x - of_int f
      in if d < 1 / 2 then f else if d > 1 / 2 then f + 1 else if even f then f else f + 1)"

definition py_trunc :: "real \<Rightarrow> int" where
  "py_trunc x = (if x \<ge> 0 then \<lfloor>x\<rfloor> else \<lceil>x\<rceil>)"

definition sign :: "real \<Rightarrow> real" where
  "sign x = (if x > 0 then 1 else if x < 0 then - 1 else 0)"

definition fold_If :: "element list \<Rightarrow> error + element" where
  "fold_If nodes =
     (case nodes of
        [condition, then_e, orelse] \<Rightarrow>
          if is_value condition \<and> the_value condition \<noteq> 0 then Inr then_e
          else if is_value condition \<and> the_value condition = 0 then Inr orelse
          else Inr (FunctionExpr ''If'' [condition, then_e, orelse])
      | _ \<Rightarrow> Inl (arity_error ''If''))"

text \<open>The loop of \<^verbatim>\<open>fold_And\<close>; \<open>None\<close> when it ends by \<^verbatim>\<open>break\<close>.\<close>

fun and_loop :: "element list \<Rightarrow> element list \<Rightarrow> element list option" where
  "and_loop [] nodes = Some nodes"
| "and_loop (n # args) nodes =
     (if is_value n \<and> the_value n \<noteq> 0 then and_loop args nodes
      else if is_value n \<and> the_value n = 0 then None
      else and_loop args (nodes @ [n]))"

definition fold_And :: "element list \<Rightarrow> error + element" where
  "fold_And args =
     (case and_loop args [] of
        Some nodes \<Rightarrow> if nodes = [] then Inr (ValueExpr 1) else Inr (FunctionExpr ''And'' nodes)
      | None \<Rightarrow> if args = [] then Inr (ValueExpr 0) else Inr (FunctionExpr ''And'' args))"

fun or_loop :: "element list \<Rightarrow> element list \<Rightarrow> element list option" where
  "or_loop [] nodes = Some nodes"
| "or_loop (n # args) nodes =
     (if is_value n \<and> the_value n = 0 then or_loop args nodes
      else if is_value n \<and> the_value n \<noteq> 0 then None
      else or_loop args (nodes @ [n]))"

definition fold_Or :: "element list \<Rightarrow> error + element" where
  "fold_Or args =
     (case or_loop args [] of
        Some nodes \<Rightarrow> if nodes = [] then Inr (ValueExpr 0) else Inr (FunctionExpr ''Or'' nodes)
      | None \<Rightarrow> if args = [] then Inr (ValueExpr 1) else Inr (FunctionExpr ''Or'' args))"

text \<open>\<^verbatim>\<open>getattr(self, f"fold_{block.name}", None)\<close>.\<close>

definition fold_method :: "string \<Rightarrow> (element list \<Rightarrow> error + element) option" where
  "fold_method name =
     (if name = ''Add'' then Some fold_Add
      else if name = ''Subtract'' then Some fold_Subtract
      else if name = ''Multiply'' then Some fold_Multiply
      else if name = ''Divide'' then Some fold_Divide
      else if name = ''Min'' then Some (fold_binary ''Min'' (\<lambda>a b. ValueExpr (min a b)))
      else if name = ''Max'' then Some (fold_binary ''Max'' (\<lambda>a b. ValueExpr (max a b)))
      else if name = ''Less'' then Some (fold_binary ''Less'' (\<lambda>a b. Value_bool (a < b)))
      else if name = ''LessOr'' then Some (fold_binary ''LessOr'' (\<lambda>a b. Value_bool (a \<le> b)))
      else if name = ''Greater'' then Some (fold_binary ''Greater'' (\<lambda>a b. Value_bool (a > b)))
      else if name = ''GreaterOr'' then Some (fold_binary ''GreaterOr'' (\<lambda>a b. Value_bool (a \<ge> b)))
      else if name = ''Equal'' then Some (fold_binary ''Equal'' (\<lambda>a b. Value_bool (a = b)))
      else if name = ''NotEqual'' then Some (fold_binary ''NotEqual'' (\<lambda>a b. Value_bool (a \<noteq> b)))
      else if name = ''Not'' then
        Some (fold_unary ''Not'' (\<lambda>v. Inr (Value_bool (v = 0))) (\<lambda>n. FunctionExpr ''Not'' [n]))
      else if name = ''Negate'' then
        Some (fold_unary ''Negate'' (\<lambda>v. Inr (ValueExpr (- v)))
                (\<lambda>n. FunctionExpr ''Subtract'' [ValueExpr 0, n]))
      else if name = ''Abs'' then
        Some (fold_unary ''Abs'' (\<lambda>v. Inr (ValueExpr \<bar>v\<bar>)) (\<lambda>n. FunctionExpr ''Abs'' [n]))
      else if name = ''Sign'' then
        Some (fold_unary ''Sign'' (\<lambda>v. Inr (ValueExpr (sign v))) (\<lambda>n. FunctionExpr ''Sign'' [n]))
      else if name = ''Floor'' then
        Some (fold_unary ''Floor'' (\<lambda>v. Inr (ValueExpr (of_int \<lfloor>v\<rfloor>))) (\<lambda>n. FunctionExpr ''Floor'' [n]))
      else if name = ''Ceil'' then
        Some (fold_unary ''Ceil'' (\<lambda>v. Inr (ValueExpr (of_int \<lceil>v\<rceil>))) (\<lambda>n. FunctionExpr ''Ceil'' [n]))
      else if name = ''Round'' then
        Some (fold_unary ''Round'' (\<lambda>v. Inr (ValueExpr (of_int (py_round v)))) (\<lambda>n. FunctionExpr ''Round'' [n]))
      else if name = ''Trunc'' then
        Some (fold_unary ''Trunc'' (\<lambda>v. Inr (ValueExpr (of_int (py_trunc v)))) (\<lambda>n. FunctionExpr ''Trunc'' [n]))
      else if name = ''Exp'' then
        Some (fold_unary ''Exp'' (\<lambda>v. Inr (ValueExpr (exp v))) (\<lambda>n. FunctionExpr ''Exp'' [n]))
      else if name = ''Log'' then
        Some (fold_unary ''Log''
                (\<lambda>v. if v \<le> 0 then Inl (ValueError ''math domain error'') else Inr (ValueExpr (ln v)))
                (\<lambda>n. FunctionExpr ''Log'' [n]))
      else if name = ''If'' then Some fold_If
      else if name = ''And'' then Some fold_And
      else if name = ''Or'' then Some fold_Or
      else None)"

text \<open>
  \<^verbatim>\<open>ConstantFold.optimize\<close> on an expression or a statement: the arguments of a
  call are optimized first, then the fold of that name, if any, is applied to them;
  an object of another class goes through its \<^verbatim>\<open>apply\<close>.
\<close>

fun constant_fold :: "element \<Rightarrow> error + element"
  and constant_fold_list :: "element list \<Rightarrow> error + element list"
where
  "constant_fold (FunctionExpr name args) =
     ebind (constant_fold_list args) (\<lambda>args'.
       case fold_method name of
         Some method_fn \<Rightarrow> method_fn args'
       | None \<Rightarrow> Inr (FunctionExpr name args'))"
| "constant_fold (ValueExpr v) = Inr (ValueExpr v)"
| "constant_fold (RefExpr r) = Inr (RefExpr r)"
| "constant_fold (GetExpr b i off) = ebind (constant_fold off) (\<lambda>off'. Inr (GetExpr b i off'))"
| "constant_fold (AssignStatement name v mutable) =
     ebind (constant_fold v) (\<lambda>v'. Inr (AssignStatement name v' True))"
| "constant_fold (SetStatement b i off v) =
     ebind (constant_fold off) (\<lambda>off'.
     ebind (constant_fold v) (\<lambda>v'. Inr (SetStatement b i off' v')))"
| "constant_fold_list [] = Inr []"
| "constant_fold_list (x # xs) =
     ebind (constant_fold x) (\<lambda>x'.
     ebind (constant_fold_list xs) (\<lambda>xs'. Inr (x' # xs')))"


section \<open>Switch elimination (optimizer/switch.py)\<close>

text \<open>
  \<^verbatim>\<open>Optimizer.optimize\<close> falls back on \<^verbatim>\<open>apply\<close>; on expressions and statements
  \<^verbatim>\<open>SwitchElimination\<close> has no case of its own.  \<^verbatim>\<open>AssignStatement.apply\<close> rebuilds
  the statement without its \<^verbatim>\<open>mutable\<close> flag, which therefore becomes \<^verbatim>\<open>True\<close>.
\<close>

fun apply_expr :: "element \<Rightarrow> element" and apply_expr_list :: "element list \<Rightarrow> element list" where
  "apply_expr (ValueExpr v) = ValueExpr v"
| "apply_expr (RefExpr r) = RefExpr r"
| "apply_expr (FunctionExpr name args) = FunctionExpr name (apply_expr_list args)"
| "apply_expr (GetExpr b i off) = GetExpr b i (apply_expr off)"
| "apply_expr (AssignStatement name v mutable) = AssignStatement name (apply_expr v) True"
| "apply_expr (SetStatement b i off v) = SetStatement b i (apply_expr off) (apply_expr v)"
| "apply_expr_list [] = []"
| "apply_expr_list (x # xs) = apply_expr x # apply_expr_list xs"

text \<open>
  The loop of \<^verbatim>\<open>optimize_SwitchFlow\<close> over the cases, with its \<^verbatim>\<open>else\<close>
  clause: \<open>static\<close> is cleared by a label that is not a literal, and is read only
  when no literal label matched.
\<close>

fun select_case ::
  "real \<Rightarrow> string \<Rightarrow> (element \<times> flow) list \<Rightarrow> flow option \<Rightarrow> bool \<Rightarrow> error + flow option" where
  "select_case v result [] dflt static =
     (if static then
        (case dflt of
           Some d \<Rightarrow> ebind (set_result d result) (\<lambda>r. Inr (Some r))
         | None \<Rightarrow> Inr None)
      else Inr None)"
| "select_case v result ((c, body) # cases) dflt static =
     (case c of
        ValueExpr cv \<Rightarrow>
          if cv = v then ebind (set_result body result) (\<lambda>r. Inr (Some r))
          else select_case v result cases dflt static
      | _ \<Rightarrow> select_case v result cases dflt False)"

fun switch_elimination :: "flow \<Rightarrow> error + flow"
  and switch_elimination_bodies :: "(element \<times> flow) list \<Rightarrow> error + flow list"
where
  "switch_elimination (SwitchFlow result condition cases dflt nx) =
     ebind (case condition of
              ValueExpr v \<Rightarrow> select_case v result cases dflt True
            | _ \<Rightarrow> Inr None) (\<lambda>selected.
       case selected of
         Some r \<Rightarrow>
           (case nx of
              Some n \<Rightarrow> ebind (switch_elimination n) (\<lambda>n'. Inr (attach r n'))
            | None \<Rightarrow> Inr r)
       | None \<Rightarrow>
           ebind (switch_elimination_bodies cases) (\<lambda>bodies.
           ebind (case dflt of
                    Some d \<Rightarrow> ebind (switch_elimination d) (\<lambda>d'. Inr (Some d'))
                  | None \<Rightarrow> Inr None) (\<lambda>dflt'.
           ebind (case nx of
                    Some n \<Rightarrow> ebind (switch_elimination n) (\<lambda>n'. Inr (Some n'))
                  | None \<Rightarrow> Inr None) (\<lambda>nx'.
             Inr (SwitchFlow result (apply_expr condition)
                    (zip (map (apply_expr \<circ> fst) cases) bodies) dflt' nx')))))"
| "switch_elimination (ExecuteFlow nodes nx) =
     ebind (case nx of
              Some n \<Rightarrow> ebind (switch_elimination n) (\<lambda>n'. Inr (Some n'))
            | None \<Rightarrow> Inr None) (\<lambda>nx'. Inr (ExecuteFlow (map apply_expr nodes) nx'))"
| "switch_elimination (LoopFlow condition body nx) =
     ebind (switch_elimination body) (\<lambda>body'.
     ebind (case nx of
              Some n \<Rightarrow> ebind (switch_elimination n) (\<lambda>n'. Inr (Some n'))
            | None \<Rightarrow> Inr None) (\<lambda>nx'. Inr (LoopFlow (apply_expr condition) body' nx')))"
| "switch_elimination_bodies [] = Inr []"
| "switch_elimination_bodies ((c, body) # cases) =
     ebind (switch_elimination body) (\<lambda>body'.
     ebind (switch_elimination_bodies cases) (\<lambda>bodies. Inr (body' # bodies)))"

section \<open>Flow lowering (node/transform.py, anonymous.py)\<close>

text \<open>
  \<^verbatim>\<open>anonymous()\<close> increments a process-wide counter and names the register after
  it.  The counter is threaded through the model as a number; a \<^verbatim>\<open>Transformer\<close>'s
  own state is its flow.
\<close>

definition anonymous :: "nat \<Rightarrow> string \<times> nat" where
  "anonymous counter = (''$'' @ str_nat (counter + 1), counter + 1)"

definition append_items :: "flow \<times> nat \<Rightarrow> element list \<Rightarrow> flow \<times> nat" where
  "append_items st blocks = (attach (fst st) (ExecuteFlow blocks None), snd st)"

definition append_flow :: "flow \<times> nat \<Rightarrow> flow \<Rightarrow> flow \<times> nat" where
  "append_flow st fl = (attach (fst st) fl, snd st)"

definition lift :: "element \<Rightarrow> flow \<times> nat \<Rightarrow> element \<times> (flow \<times> nat)" where
  "lift v st =
     (let (name, counter) = anonymous (snd st)
      in (RefExpr name, append_items (fst st, counter) [AssignStatement name v True]))"

text \<open>
  The checks \<^verbatim>\<open>if not value: raise TypeError(f'{node} returns None.')\<close>.  Every
  expression and every statement is a truthy object, so only \<^verbatim>\<open>None\<close> is refused; a
  statement that \<^verbatim>\<open>transform_SetNode\<close> returned passes.  The message holds Python's
  \<^verbatim>\<open>str\<close> of the node, which prints floats and, for the classes without
  \<^verbatim>\<open>__str__\<close>, the \<^verbatim>\<open>repr\<close> of the dataclass; that text is a parameter \<open>fmt\<close> of the
  lowering, and \<open>shown\<close> below is \<open>fmt\<close> of the node.
\<close>

definition not_none :: "string \<Rightarrow> element option \<Rightarrow> error + element" where
  "not_none shown r =
     (case r of
        None \<Rightarrow> Inl (TypeError (shown @ '' returns None.''))
      | Some v \<Rightarrow> Inr v)"

text \<open>A size of trees that bounds the recursion of the lowering.\<close>

fun weight :: "node \<Rightarrow> nat" where
  "weight (ValueNode v) = 1"
| "weight (RefNode r) = 1"
| "weight (CallNode name args kwargs) = 1"
| "weight (StarredNode nested) = 1"
| "weight (GetNode b i off) = 1 + weight off"
| "weight (SetNode b i off v) = 1 + weight off + weight v"
| "weight (AssignNode name v) = 1 + weight v"
| "weight (FunctionNode name args) = 1 + sum_list (map weight args)"
| "weight (ExecuteNode ns) = 1 + sum_list (map weight ns)"
| "weight (IfNode c t e) = 1 + weight c + weight t + weight e"
| "weight (WhileNode c b) = 3 + weight c + weight b"

lemma weight_pos: "0 < weight n"
  by (cases n) simp_all

lemma weight_splice: "sum_list (map weight (splice n)) \<le> weight n"
  by (cases n) simp_all

lemma weight_concat_splice: "sum_list (map weight (concat (map splice ns))) \<le> sum_list (map weight ns)"
  by (induction ns) (simp_all add: add_mono weight_splice)

lemma weight_F_Execute: "weight (F_Execute ns) \<le> 1 + sum_list (map weight ns)"
proof (cases "length ns = 1")
  case True
  then obtain n where "ns = [n]" by (cases ns) auto
  then show ?thesis by (simp add: F_Execute_def)
next
  case False
  then show ?thesis using weight_concat_splice[of ns] by (simp add: F_Execute_def)
qed

lemma weight_F_Assign: "F_Assign name v = Inr r \<Longrightarrow> weight r \<le> weight v + 1"
proof (induction name v arbitrary: r rule: F_Assign.induct)
  case (1 name ns)
  then obtain a where ne: "ns \<noteq> []" and a: "F_Assign name (last ns) = Inr a"
    and r: "r = F_Execute (butlast ns @ [a])"
    by (auto split: if_splits sum.splits)
  have wa: "weight a \<le> weight (last ns) + 1" using 1(1)[OF ne a] .
  have "sum_list (map weight ns) = sum_list (map weight (butlast ns)) + weight (last ns)"
    using ne by (subst append_butlast_last_id[symmetric, OF ne]) (simp del: append_butlast_last_id)
  then show ?case using wa weight_F_Execute[of "butlast ns @ [a]"] by (simp add: r)
qed auto

text \<open>
  \<^verbatim>\<open>Transformer.transform\<close> (here \<open>transform_node\<close>) by node class, the loops of
  \<^verbatim>\<open>transform_ExecuteNode\<close> and \<^verbatim>\<open>transform_FunctionNode\<close>, and the module's
  \<^verbatim>\<open>transform\<close>, which runs a new \<^verbatim>\<open>Transformer\<close> on \<^verbatim>\<open>ExecuteNode([root])\<close>
  from the empty flow.  The value a method returns is \<^verbatim>\<open>None\<close>, an expression or,
  from \<^verbatim>\<open>transform_SetNode\<close>, a statement.
\<close>

function transform_node ::
    "(node \<Rightarrow> string) \<Rightarrow> node \<Rightarrow> flow \<times> nat \<Rightarrow> error + (element option \<times> (flow \<times> nat))"
  and transform_execute ::
    "(node \<Rightarrow> string) \<Rightarrow> node list \<Rightarrow> element option \<Rightarrow> flow \<times> nat
       \<Rightarrow> error + (element option \<times> (flow \<times> nat))"
  and transform_args ::
    "(node \<Rightarrow> string) \<Rightarrow> node list \<Rightarrow> flow \<times> nat \<Rightarrow> error + (element list \<times> (flow \<times> nat))"
  and transform :: "(node \<Rightarrow> string) \<Rightarrow> node \<Rightarrow> nat \<Rightarrow> error + (flow \<times> nat)"
where
  "transform_node fmt (ValueNode v) st = Inr (Some (ValueExpr v), st)"
| "transform_node fmt (RefNode name) st = Inr (Some (RefExpr name), st)"
| "transform_node fmt (AssignNode name v) st =
     ebind (transform_node fmt v st) (\<lambda>(r, st1).
     ebind (not_none (fmt v) r) (\<lambda>e.
       Inr (None, append_items st1 [AssignStatement name e True])))"
| "transform_node fmt (GetNode b i off) st =
     ebind (transform_node fmt off st) (\<lambda>(r, st1).
     ebind (not_none (fmt off) r) (\<lambda>offset.
       (let (ref, st2) = lift offset st1 in Inr (Some (GetExpr b i ref), st2))))"
| "transform_node fmt (SetNode b i off v) st =
     ebind (transform_node fmt v st) (\<lambda>(rv, st1).
     ebind (not_none (fmt v) rv) (\<lambda>val.
     ebind (transform_node fmt off st1) (\<lambda>(ro, st2).
     ebind (not_none (fmt off) ro) (\<lambda>offset.
       (let (oref, st3) = lift offset st2; (vref, st4) = lift val st3
        in Inr (Some (SetStatement b i oref vref), st4))))))"
| "transform_node fmt (ExecuteNode ns) st = transform_execute fmt ns None st"
| "transform_node fmt (FunctionNode name args) st =
     ebind (transform_args fmt args st) (\<lambda>(refs, st1). Inr (Some (FunctionExpr name refs), st1))"
| "transform_node fmt (IfNode c t e) st =
     ebind (transform_node fmt c st) (\<lambda>(r, st1).
     ebind (not_none (fmt c) r) (\<lambda>cond.
       (let (result, n1) = anonymous (snd st1) in
        ebind (transform fmt t n1) (\<lambda>(then_flow, n2).
        ebind (transform fmt e n2) (\<lambda>(orelse, n3).
          Inr (Some (RefExpr result),
               append_flow (fst st1, n3)
                 (SwitchFlow result cond [(ValueExpr 0, orelse)] (Some then_flow) None)))))))"
| "transform_node fmt (WhileNode c b) st =
     (let (cond, n1) = anonymous (snd st) in
      (case F_Assign cond c of
         Inl err \<Rightarrow> Inl err
       | Inr a \<Rightarrow>
           ebind (transform fmt a n1) (\<lambda>(condition, n2).
           ebind (transform fmt b n2) (\<lambda>(body_flow, n3).
             Inr (None,
                  append_flow (append_flow (fst st, n3) condition)
                    (LoopFlow (RefExpr cond) (attach body_flow condition) None))))))"
| "transform_node fmt (CallNode name args kwargs) st =
     Inl (NotImplementedError ''CallNode is not supported.'')"
| "transform_node fmt (StarredNode nested) st =
     Inl (NotImplementedError ''StarredNode is not supported.'')"
| "transform_execute fmt [] result st = Inr (result, st)"
| "transform_execute fmt (n # ns) result st =
     ebind (transform_node fmt n (case result of Some it \<Rightarrow> append_items st [it] | None \<Rightarrow> st))
       (\<lambda>(r, st1). transform_execute fmt ns r st1)"
| "transform_args fmt [] st = Inr ([], st)"
| "transform_args fmt (a # args) st =
     ebind (transform_node fmt a st) (\<lambda>(r, st1).
     ebind (not_none (fmt a) r) (\<lambda>v.
       (let (ref, st2) = lift v st1 in
        ebind (transform_args fmt args st2) (\<lambda>(refs, st3). Inr (ref # refs, st3)))))"
| "transform fmt root_node counter =
     ebind (transform_execute fmt [root_node] None (ExecuteFlow [] None, counter)) (\<lambda>(block, st).
       Inr (case block of Some it \<Rightarrow> append_items st [it] | None \<Rightarrow> st))"
  by pat_completeness auto
termination
  by (relation "measure (\<lambda>x. case x of
           Inl (Inl (fmt, n, st)) \<Rightarrow> 2 * weight n
         | Inl (Inr (fmt, ns, r, st)) \<Rightarrow> 2 * sum_list (map weight ns) + 1
         | Inr (Inl (fmt, ns, st)) \<Rightarrow> 2 * sum_list (map weight ns) + 1
         | Inr (Inr (fmt, n, c)) \<Rightarrow> 2 * weight n + 2)")
     (auto simp: weight_pos dest!: weight_F_Assign)


section \<open>Front-end compiler (compiler/core.py, compiler/context.py, inspect.py)\<close>

text \<open>
  The part of Python's syntax tree the compiler dispatches on.  A constant is a number or
  something else; every syntax class without a \<open>__compile_*__\<close> method is kept by its class name
  (\<open>OtherExpr\<close>, \<open>OtherStmt\<close>, \<open>OtherOperator\<close>, \<open>OtherCmpop\<close>, \<open>OtherUnaryop\<close>), for which
  \<open>Compiler.compile\<close> raises \<open>NotImplementedError\<close>.  A keyword argument carries \<open>None\<close> as its
  name when it is a \<open>**kwargs\<close> argument.  A function definition is compiled from its body alone.
\<close>

datatype py_constant = Num real | OtherConstant

datatype cmpop = Eq | NotEq | Lt | LtE | Gt | GtE | OtherCmpop string

datatype operator = Add | Sub | Mult | Div | Mod | Pow | OtherOperator string

datatype unaryop = UAdd | USub | Not_op | OtherUnaryop string

datatype py_expr =
    Constant py_constant
  | Name string
  | BinOp py_expr operator py_expr
  | UnaryOp unaryop py_expr
  | IfExp py_expr py_expr py_expr
  | Compare py_expr "(cmpop \<times> py_expr) list"
  | Call py_expr "py_expr list" "(string option \<times> py_expr) list"
  | Attribute py_expr string
  | OtherExpr string

datatype stmt =
    Expr py_expr
  | Pass
  | Return "py_expr option"
  | If py_expr "stmt list" "stmt list"
  | Assign "py_expr list" py_expr
  | AugAssign py_expr operator py_expr
  | AnnAssign py_expr "py_expr option"
  | FunctionDef "stmt list"
  | OtherStmt string

text \<open>
  Name resolution evaluates Python objects of the defining module (\<open>RelativeName.as_qualified\<close>,
  \<open>Compiler._resolve_pointer\<close> followed by \<open>Pointer.get\<close> or \<open>Pointer.set\<close>); a module is therefore
  given by these two functions: the qualified name of a callee, and the block, index and offset of
  an addressable expression (or the error raised on the way).
\<close>

datatype module_env =
  Module (as_qualified: "py_expr \<Rightarrow> string")
         (resolve_pointer: "py_expr \<Rightarrow> error + (int \<times> int \<times> node)")


text \<open>
  The context is the stack of frames, innermost first.  \<open>context.x\<close> and \<open>context.x = v\<close> look for
  the innermost frame that has the attribute \<open>x\<close>; every attribute belongs to one class of frame,
  so the search is by the class.  The set \<open>calls\<close> is kept as a duplicate-free list.
\<close>

datatype frame =
    FunctionContext (calls: "py_expr list") (fc_name: "string option")
      (fc_module: "module_env option") (fc_params: "string list")
  | BlockContext (may_break: bool) (break_flag: "string option")
      (may_return: bool) (return_flag: "string option") (return_value: "string option")
  | BinOpContext (left: "node option") (right: "node option")
  | UnaryOpContext (operand: "node option")

datatype frame_kind = KFunction | KBlock | KBinOp | KUnaryOp

fun kind_of :: "frame \<Rightarrow> frame_kind" where
  "kind_of (FunctionContext c n m p) = KFunction"
| "kind_of (BlockContext mb bf mr rf rv) = KBlock"
| "kind_of (BinOpContext l r) = KBinOp"
| "kind_of (UnaryOpContext x) = KUnaryOp"

definition new_block :: frame where
  "new_block = BlockContext False None False None None"

definition exit_frame :: "frame_kind \<Rightarrow> frame list \<Rightarrow> error + (frame \<times> frame list)" where
  "exit_frame k ctx =
     (case ctx of
        [] \<Rightarrow> Inl (RuntimeError ''No context frame to exit'')
      | fr # rest \<Rightarrow>
          if kind_of fr = k then Inr (fr, rest)
          else Inl (RuntimeError ''Expected to exit another frame''))"

fun get_frame :: "frame_kind \<Rightarrow> string \<Rightarrow> frame list \<Rightarrow> error + frame" where
  "get_frame k option_name [] =
     Inl (AttributeError (''Option '' @ option_name @ '' not found in context''))"
| "get_frame k option_name (fr # rest) =
     (if kind_of fr = k then Inr fr else get_frame k option_name rest)"

fun set_frame ::
  "frame_kind \<Rightarrow> string \<Rightarrow> (frame \<Rightarrow> frame) \<Rightarrow> frame list \<Rightarrow> error + frame list" where
  "set_frame k option_name f [] =
     Inl (AttributeError (''Option '' @ option_name @ '' not found in context''))"
| "set_frame k option_name f (fr # rest) =
     (if kind_of fr = k then Inr (f fr # rest)
      else ebind (set_frame k option_name f rest) (\<lambda>rest'. Inr (fr # rest')))"


text \<open>\<open>QualifiedName.var\<close>, and the truth value of an optional register name.\<close>

definition var :: "string \<Rightarrow> string \<Rightarrow> string" where
  "var qualified_name name = replace_dots (qualified_name @ ''$'' @ name)"

definition truthy :: "string option \<Rightarrow> bool" where
  "truthy s = (case s of None \<Rightarrow> False | Some x \<Rightarrow> x \<noteq> [])"


text \<open>
  The state threaded through the compiler is the context and the global counter of
  \<open>anonymous()\<close>.  \<open>Compiler._may_return\<close>:
\<close>

definition may_return_wrap ::
  "frame \<Rightarrow> node \<Rightarrow> frame list \<times> nat \<Rightarrow> error + (node \<times> (frame list \<times> nat))" where
  "may_return_wrap c nd st =
     (if may_return c then
        (if \<not> truthy (return_flag c) then Inl (ValueError ''No return flag'')
         else
           (let flag = RefNode (the (return_flag c));
                val = (if truthy (return_value c) then RefNode (the (return_value c)) else F_empty);
                (result, counter) = anonymous (snd st)
            in if \<not> empty_node nd then
                 ebind (F_Assign result nd) (\<lambda>a.
                   Inr (F_Execute [a, F_If flag val (RefNode result)], (fst st, counter)))
               else Inr (F_And flag [val], (fst st, counter))))
      else Inr (nd, st))"

definition operands :: "frame list \<Rightarrow> error + (node \<times> node)" where
  "operands ctx =
     ebind (get_frame KBinOp ''left'' ctx) (\<lambda>fl.
     ebind (get_frame KBinOp ''right'' ctx) (\<lambda>fr.
       case (left fl, right fr) of
         (Some l, Some r) \<Rightarrow> Inr (l, r)
       | _ \<Rightarrow> Inl (TypeError ''operand is None'')))"

definition unsupported :: "string \<Rightarrow> error" where
  "unsupported cls = NotImplementedError (''Unsupported node type: '' @ cls)"

fun compile_cmpop :: "cmpop \<Rightarrow> frame list \<Rightarrow> error + node" where
  "compile_cmpop Eq ctx = ebind (operands ctx) (\<lambda>(l, r). create_function_node ''Equal'' [l, r])"
| "compile_cmpop NotEq ctx = ebind (operands ctx) (\<lambda>(l, r). create_function_node ''NotEqual'' [l, r])"
| "compile_cmpop Lt ctx = ebind (operands ctx) (\<lambda>(l, r). create_function_node ''Less'' [l, r])"
| "compile_cmpop LtE ctx = ebind (operands ctx) (\<lambda>(l, r). create_function_node ''LessOr'' [l, r])"
| "compile_cmpop Gt ctx = ebind (operands ctx) (\<lambda>(l, r). create_function_node ''Greater'' [l, r])"
| "compile_cmpop GtE ctx = ebind (operands ctx) (\<lambda>(l, r). create_function_node ''GreaterOr'' [l, r])"
| "compile_cmpop (OtherCmpop cls) ctx = Inl (unsupported cls)"

fun compile_operator :: "operator \<Rightarrow> frame list \<Rightarrow> error + node" where
  "compile_operator Add ctx = ebind (operands ctx) (\<lambda>(l, r). create_function_node ''Add'' [l, r])"
| "compile_operator Sub ctx = ebind (operands ctx) (\<lambda>(l, r). create_function_node ''Subtract'' [l, r])"
| "compile_operator Mult ctx = ebind (operands ctx) (\<lambda>(l, r). create_function_node ''Multiply'' [l, r])"
| "compile_operator Div ctx = ebind (operands ctx) (\<lambda>(l, r). create_function_node ''Divide'' [l, r])"
| "compile_operator Mod ctx = ebind (operands ctx) (\<lambda>(l, r). create_function_node ''Mod'' [l, r])"
| "compile_operator Pow ctx = ebind (operands ctx) (\<lambda>(l, r). create_function_node ''Power'' [l, r])"
| "compile_operator (OtherOperator cls) ctx = Inl (unsupported cls)"

definition the_operand :: "frame list \<Rightarrow> error + node" where
  "the_operand ctx =
     ebind (get_frame KUnaryOp ''operand'' ctx) (\<lambda>fr.
       case operand fr of Some x \<Rightarrow> Inr x | None \<Rightarrow> Inl (TypeError ''operand is None''))"

fun compile_unaryop :: "unaryop \<Rightarrow> frame list \<Rightarrow> error + node" where
  "compile_unaryop UAdd ctx =
     ebind (the_operand ctx) (\<lambda>x. Inl (TypeError ''Unsupported constant type''))"
| "compile_unaryop USub ctx =
     ebind (the_operand ctx) (\<lambda>x. create_function_node ''Subtract'' [ValueNode 0, x])"
| "compile_unaryop Not_op ctx =
     ebind (the_operand ctx) (\<lambda>x. create_function_node ''Not'' [x])"
| "compile_unaryop (OtherUnaryop cls) ctx = Inl (unsupported cls)"


text \<open>\<open>Compiler._assign\<close>:\<close>

definition assign_target ::
  "py_expr \<Rightarrow> node \<Rightarrow> frame list \<Rightarrow> error + node" where
  "assign_target target val ctx =
     ebind (get_frame KFunction ''name'' ctx) (\<lambda>fc.
       case fc_name fc of
         None \<Rightarrow> Inl (RuntimeError ''Assignment outside of function'')
       | Some qn \<Rightarrow>
           (case target of
              Name ident \<Rightarrow> F_Assign (var qn ident) val
            | Attribute obj attr \<Rightarrow>
                ebind (get_frame KFunction ''module'' ctx) (\<lambda>fm.
                  case fc_module fm of
                    None \<Rightarrow> Inl (RuntimeError ''Attribute not in context'')
                  | Some m \<Rightarrow>
                      ebind (resolve_pointer m target) (\<lambda>(b, i, off). Inr (SetNode b i off val)))
            | _ \<Rightarrow> Inl (TypeError ''Assignment to non-name not supported'')))"


text \<open>
  The dict comprehension of \<open>__compile_Call__\<close>: a repeated key keeps its first position and takes
  the last value.
\<close>

definition build_kwargs :: "(string option \<times> node) list \<Rightarrow> (string option \<times> node) list" where
  "build_kwargs kws =
     foldl (\<lambda>d (k, v). if k \<in> set (map fst d)
                          then map (\<lambda>(k', v'). if k' = k then (k, v) else (k', v')) d
                          else d @ [(k, v)]) [] kws"

fun name_or_attribute :: "py_expr \<Rightarrow> bool" where
  "name_or_attribute (Name ident) = True"
| "name_or_attribute (Attribute obj attr) = True"
| "name_or_attribute _ = False"

definition add_call :: "py_expr \<Rightarrow> frame \<Rightarrow> frame" where
  "add_call func fr =
     (case fr of
        FunctionContext cs n md ps \<Rightarrow> FunctionContext (if func \<in> set cs then cs else cs @ [func]) n md ps
      | _ \<Rightarrow> fr)"


text \<open>
  Expressions.  \<open>compare_loop left ops result\<close> is the loop of \<open>__compile_Compare__\<close> over the pairs
  of operator and comparator, with the loop variables \<open>left\<close> and \<open>result\<close>.
\<close>

function compile_expr :: "py_expr \<Rightarrow> frame list \<times> nat \<Rightarrow> error + (node \<times> (frame list \<times> nat))"
  and compile_args ::
    "py_expr list \<Rightarrow> frame list \<times> nat \<Rightarrow> error + (node list \<times> (frame list \<times> nat))"
  and compile_keywords ::
    "(string option \<times> py_expr) list \<Rightarrow> frame list \<times> nat
       \<Rightarrow> error + ((string option \<times> node) list \<times> (frame list \<times> nat))"
  and compare_loop ::
    "py_expr \<Rightarrow> (cmpop \<times> py_expr) list \<Rightarrow> node \<Rightarrow> frame list \<times> nat
       \<Rightarrow> error + (node \<times> (frame list \<times> nat))"
where
  "compile_expr (Constant c) st =
     (case c of
        Num v \<Rightarrow> Inr (ValueNode v, st)
      | OtherConstant \<Rightarrow> Inl (TypeError ''Unsupported constant type''))"
| "compile_expr (Name ident) st =
     ebind (get_frame KFunction ''name'' (fst st)) (\<lambda>fc.
       case fc_name fc of
         None \<Rightarrow> Inl (RuntimeError ''Name not in context'')
       | Some qn \<Rightarrow> Inr (RefNode (var qn ident), st))"
| "compile_expr (BinOp l op r) st =
     ebind (compile_expr l st) (\<lambda>(l', st1).
     ebind (compile_expr r st1) (\<lambda>(r', st2).
     ebind (compile_operator op (BinOpContext (Some l') (Some r') # fst st2)) (\<lambda>nd.
       Inr (nd, st2))))"
| "compile_expr (UnaryOp op x) st =
     ebind (compile_expr x st) (\<lambda>(x', st1).
     ebind (compile_unaryop op (UnaryOpContext (Some x') # fst st1)) (\<lambda>nd.
       Inr (nd, st1)))"
| "compile_expr (IfExp test body orelse) st =
     ebind (compile_expr test st) (\<lambda>(test', st1).
     ebind (compile_expr body st1) (\<lambda>(body', st2).
     ebind (compile_expr orelse st2) (\<lambda>(orelse', st3).
       Inr (F_If test' body' orelse', st3))))"
| "compile_expr (Compare l ops) st = compare_loop l ops F_true st"
| "compile_expr (Call func args keywords) st =
     (if \<not> name_or_attribute func then Inl (TypeError ''Call to non-name not supported'')
      else
        ebind (get_frame KFunction ''module'' (fst st)) (\<lambda>fm.
          case fc_module fm of
            None \<Rightarrow> Inl (RuntimeError ''Module not in context'')
          | Some m \<Rightarrow>
              ebind (compile_args args st) (\<lambda>(args', st1).
              ebind (compile_keywords keywords st1) (\<lambda>(kws, st2).
                (let kwargs = build_kwargs kws in
                 if None \<in> set (map fst kwargs) then Inl (TypeError ''**kwargs is not supported'')
                 else
                   ebind (set_frame KFunction ''calls'' (add_call func) (fst st2)) (\<lambda>ctx.
                     Inr (CallNode (as_qualified m func) args'
                            (map (\<lambda>(k, v). (the k, v)) kwargs), (ctx, snd st2))))))))"
| "compile_expr (Attribute obj attr) st =
     ebind (get_frame KFunction ''module'' (fst st)) (\<lambda>fm.
       case fc_module fm of
         None \<Rightarrow> Inl (RuntimeError ''Attribute not in context'')
       | Some m \<Rightarrow>
           ebind (resolve_pointer m (Attribute obj attr)) (\<lambda>(b, i, off). Inr (GetNode b i off, st)))"
| "compile_expr (OtherExpr cls) st = Inl (unsupported cls)"
| "compile_args [] st = Inr ([], st)"
| "compile_args (a # args) st =
     ebind (compile_expr a st) (\<lambda>(a', st1).
     ebind (compile_args args st1) (\<lambda>(args', st2). Inr (a' # args', st2)))"
| "compile_keywords [] st = Inr ([], st)"
| "compile_keywords ((k, v) # kws) st =
     ebind (compile_expr v st) (\<lambda>(v', st1).
     ebind (compile_keywords kws st1) (\<lambda>(kws', st2). Inr ((k, v') # kws', st2)))"
| "compare_loop l [] result st = Inr (result, st)"
| "compare_loop l ((op, r) # ops) result st =
     (let (left_alias, n1) = anonymous (snd st) in
      ebind (compile_expr l (fst st, n1)) (\<lambda>(l', st1).
      ebind (F_Assign left_alias l') (\<lambda>left_assign.
        (let (right_alias, n2) = anonymous (snd st1) in
         ebind (compile_expr r (fst st1, n2)) (\<lambda>(r', st2).
         ebind (F_Assign right_alias r') (\<lambda>right_assign.
         ebind (compile_cmpop op
                  (BinOpContext (Some (RefNode left_alias)) (Some (RefNode right_alias)) # fst st2))
           (\<lambda>cmp.
             compare_loop r ops
               (F_And result [F_Execute [left_assign, right_assign, cmp]]) st2)))))))"
  by pat_completeness auto
termination
  by (relation "measure (\<lambda>x. case x of
           Inl (Inl (e, st)) \<Rightarrow> 2 * size e
         | Inl (Inr (es, st)) \<Rightarrow> 2 * size_list size es + 1
         | Inr (Inl (kws, st)) \<Rightarrow> 2 * size_list (size_prod (\<lambda>_. 0) size) kws + 1
         | Inr (Inr (l, ops, r, st)) \<Rightarrow> 2 * size l + 2 * size_list (size_prod (\<lambda>_. 0) size) ops + 1)")
     auto


text \<open>Assignments to the attributes of the innermost block frame.\<close>

definition set_block :: "string \<Rightarrow> (frame \<Rightarrow> frame) \<Rightarrow> frame list \<Rightarrow> error + frame list" where
  "set_block option_name f ctx = set_frame KBlock option_name f ctx"

definition set_may_return :: "bool \<Rightarrow> frame \<Rightarrow> frame" where
  "set_may_return b fr =
     (case fr of BlockContext mb bf mr rf rv \<Rightarrow> BlockContext mb bf b rf rv | _ \<Rightarrow> fr)"

definition set_return_flag :: "string option \<Rightarrow> frame \<Rightarrow> frame" where
  "set_return_flag x fr =
     (case fr of BlockContext mb bf mr rf rv \<Rightarrow> BlockContext mb bf mr x rv | _ \<Rightarrow> fr)"

definition set_return_value :: "string option \<Rightarrow> frame \<Rightarrow> frame" where
  "set_return_value x fr =
     (case fr of BlockContext mb bf mr rf rv \<Rightarrow> BlockContext mb bf mr rf x | _ \<Rightarrow> fr)"

definition top_frame :: "frame list \<Rightarrow> error + frame" where
  "top_frame ctx =
     (case ctx of [] \<Rightarrow> Inl (RuntimeError ''No context frame'') | fr # rest \<Rightarrow> Inr fr)"


text \<open>
  One arm of the conditional that \<open>__compile_If__\<close> builds when a branch may return.
\<close>

definition return_arm :: "string \<Rightarrow> string \<Rightarrow> node \<Rightarrow> node \<Rightarrow> node \<Rightarrow> error + node" where
  "return_arm flag_name value_name body flag val =
     (if \<not> empty_node body then
        ebind (F_Assign value_name body) (\<lambda>a1.
        ebind (F_Assign flag_name flag) (\<lambda>a2.
        ebind (F_Assign value_name val) (\<lambda>a3.
          Inr (F_Execute [a1, a2, F_And flag [a3]]))))
      else Inr F_empty)"


text \<open>
  Statements.  \<open>compile_block body returnable\<close> is \<open>Compiler._compile_block\<close> with
  \<open>returnable\<close> for \<open>level == 'Returnable'\<close>; \<open>block_loop\<close> is its loop over the statements, which
  stops at the first statement that sets \<open>may_return\<close>; \<open>compile_branch\<close> is the block that
  \<open>__compile_If__\<close> runs for each of its two branches, giving the branch, its return flag, its
  return value and whether it may return.
\<close>

function compile_stmt :: "stmt \<Rightarrow> frame list \<times> nat \<Rightarrow> error + (node \<times> (frame list \<times> nat))"
  and compile_block ::
    "stmt list \<Rightarrow> bool \<Rightarrow> frame list \<times> nat \<Rightarrow> error + (node \<times> (frame list \<times> nat))"
  and block_loop ::
    "stmt list \<Rightarrow> node list \<Rightarrow> frame list \<times> nat \<Rightarrow> error + (node list \<times> (frame list \<times> nat))"
  and compile_branch ::
    "stmt list \<Rightarrow> frame list \<times> nat
       \<Rightarrow> error + ((node \<times> node \<times> node \<times> bool) \<times> (frame list \<times> nat))"
where
  "compile_stmt (Expr e) st = compile_expr e st"
| "compile_stmt Pass st = Inr (F_empty, st)"
| "compile_stmt (Return v) st =
     ebind (set_block ''may_return'' (set_may_return True) (fst st)) (\<lambda>ctx1.
       (let (flag_name, n1) = anonymous (snd st) in
        ebind (set_block ''return_flag'' (set_return_flag (Some flag_name)) ctx1) (\<lambda>ctx2.
          case v of
            Some e \<Rightarrow>
              (let (var_name, n2) = anonymous n1 in
               ebind (set_block ''return_value'' (set_return_value (Some var_name)) ctx2) (\<lambda>ctx3.
               ebind (compile_expr e (ctx3, n2)) (\<lambda>(e', st1).
               ebind (F_Assign var_name e') (\<lambda>a1.
               ebind (F_Assign flag_name F_true) (\<lambda>a2.
                 Inr (F_Execute [a1, a2], st1))))))
          | None \<Rightarrow>
              ebind (F_Assign flag_name F_true) (\<lambda>a. Inr (a, (ctx2, n1))))))"
| "compile_stmt (If test body orelse) st =
     ebind (compile_expr test st) (\<lambda>(test', st1).
     ebind (compile_branch body st1) (\<lambda>((body', flag_then, value_then, mr_then), st2).
     ebind (compile_branch orelse st2) (\<lambda>((orelse', flag_else, value_else, mr_else), st3).
       if mr_then \<or> mr_else then
         ebind (set_block ''may_return'' (set_may_return True) (fst st3)) (\<lambda>ctx1.
           (let (flag_name, n1) = anonymous (snd st3) in
            ebind (set_block ''return_flag'' (set_return_flag (Some flag_name)) ctx1) (\<lambda>ctx2.
              (let (value_name, n2) = anonymous n1 in
               ebind (set_block ''return_value'' (set_return_value (Some value_name)) ctx2) (\<lambda>ctx3.
               ebind (F_Assign flag_name F_false) (\<lambda>a1.
               ebind (F_Assign value_name F_false) (\<lambda>a2.
               ebind (return_arm flag_name value_name body' flag_then value_then) (\<lambda>then_arm.
               ebind (return_arm flag_name value_name orelse' flag_else value_else) (\<lambda>else_arm.
                 Inr (F_Execute [a1, a2, F_If test' then_arm else_arm], (ctx3, n2)))))))))))
       else Inr (F_If test' body' orelse', st3))))"
| "compile_stmt (Assign targets v) st =
     (if length targets > 1 then Inl (TypeError ''Multiple assignment not supported'')
      else (case targets of
              [] \<Rightarrow> Inl IndexError
            | target # _ \<Rightarrow>
                ebind (compile_expr v st) (\<lambda>(v', st1).
                ebind (assign_target target v' (fst st1)) (\<lambda>nd. Inr (nd, st1)))))"
| "compile_stmt (AugAssign target op v) st =
     ebind (compile_expr v st) (\<lambda>(v', st1).
     ebind (compile_expr target (BinOpContext None None # fst st1, snd st1)) (\<lambda>(l, st2).
     ebind (set_frame KBinOp ''left'' (\<lambda>fr. BinOpContext (Some l) (Some v')) (fst st2)) (\<lambda>ctx.
     ebind (compile_operator op ctx) (\<lambda>opnode.
     ebind (assign_target target opnode ctx) (\<lambda>nd.
     ebind (exit_frame KBinOp ctx) (\<lambda>(fr, ctx'). Inr (nd, (ctx', snd st2))))))))"
| "compile_stmt (AnnAssign target v) st =
     (case v of
        None \<Rightarrow> Inl (TypeError ''Value required for annotation assignment'')
      | Some e \<Rightarrow>
          ebind (compile_expr e st) (\<lambda>(v', st1).
          ebind (assign_target target v' (fst st1)) (\<lambda>nd. Inr (nd, st1))))"
| "compile_stmt (FunctionDef body) st =
     ebind (compile_block body True (new_block # fst st, snd st)) (\<lambda>(nd, st1).
     ebind (exit_frame KBlock (fst st1)) (\<lambda>(fr, ctx). Inr (nd, (ctx, snd st1))))"
| "compile_stmt (OtherStmt cls) st = Inl (unsupported cls)"
| "compile_block body returnable st =
     ebind (block_loop body [] (new_block # fst st, snd st)) (\<lambda>(nodes, st1).
     ebind (exit_frame KBlock (fst st1)) (\<lambda>(c, ctx1).
     ebind (if may_return c \<and> \<not> returnable then
              ebind (set_block ''may_return'' (set_may_return True) ctx1) (\<lambda>ctx2.
              ebind (set_block ''return_flag'' (set_return_flag (return_flag c)) ctx2) (\<lambda>ctx3.
                set_block ''return_value'' (set_return_value (return_value c)) ctx3))
            else Inr ctx1) (\<lambda>ctx4.
       Inr (F_Execute nodes, (ctx4, snd st1)))))"
| "block_loop [] nodes st = Inr (nodes, st)"
| "block_loop (stat # rest) nodes st =
     ebind (compile_stmt stat st) (\<lambda>(nd, st1).
     ebind (top_frame (fst st1)) (\<lambda>c.
       if may_return c then
         ebind (compile_block rest False (new_block # fst st1, snd st1)) (\<lambda>(after, st2).
         ebind (exit_frame KBlock (fst st2)) (\<lambda>(fr, ctx2).
         ebind (top_frame ctx2) (\<lambda>c'.
         ebind (may_return_wrap c' after (ctx2, snd st2)) (\<lambda>(wrapped, st3).
           Inr (nodes @ [nd, wrapped], st3)))))
       else block_loop rest (nodes @ [nd]) st1))"
| "compile_branch body st =
     ebind (compile_block body False (new_block # fst st, snd st)) (\<lambda>(body', st1).
     ebind (top_frame (fst st1)) (\<lambda>c.
     ebind (may_return_wrap c body' st1) (\<lambda>(wrapped, st2).
     ebind (if may_return c \<and> \<not> truthy (return_flag c)
            then Inl (ValueError ''No return flag'') else Inr ()) (\<lambda>_.
     ebind (exit_frame KBlock (fst st2)) (\<lambda>(fr, ctx).
       Inr ((wrapped,
             if may_return c then RefNode (the (return_flag c)) else F_false,
             if may_return c \<and> truthy (return_value c) then RefNode (the (return_value c)) else F_empty,
             may_return c), (ctx, snd st2)))))))"
  by pat_completeness auto
termination
  by (relation "measure (\<lambda>x. case x of
           Inl (Inl (s, st)) \<Rightarrow> 3 * size s
         | Inl (Inr (body, r, st)) \<Rightarrow> 3 * size_list size body + 1
         | Inr (Inl (body, nodes, st)) \<Rightarrow> 3 * size_list size body
         | Inr (Inr (body, st)) \<Rightarrow> 3 * size_list size body + 2)")
     auto


section \<open>Evaluation of the tree IR\<close>

text \<open>
  Modelled from the spec: the engine that runs the tree IR is not part of these sources.  The
  evaluation below follows the description of the variants in the data model: a literal yields its
  number, \<open>Ref\<close> reads a register, \<open>Assign\<close> writes a register and yields the value,
  \<open>Get\<close> and \<open>Set\<close> read and write the memory cell addressed by block, index and offset,
  \<open>Execute\<close> evaluates its elements in order and yields the last value, \<open>If\<close> evaluates its
  condition and then one branch, \<open>While\<close> repeats its body while the condition is not zero (with
  fuel, \<open>None\<close> when it runs out), a call to a built-in evaluates its arguments from left to right.
  A call to a user function evaluates its arguments, is recorded in the trace of calls (the
  observable side effect) and yields the number that \<open>results\<close> gives for its name.  A variadic
  placeholder has no value.  Numbers are reals.
\<close>

datatype loc = Reg string | Mem int int real

definition truth :: "bool \<Rightarrow> real" where
  "truth b = (if b then 1 else 0)"


text \<open>
  Modelled from the spec: the built-ins that the compiled comparisons and arithmetic operators use;
  any other built-in yields 0 here.
\<close>

fun apply_builtin :: "string \<Rightarrow> real list \<Rightarrow> real" where
  "apply_builtin name [a, b] =
     (if name = ''Less'' then truth (a < b)
      else if name = ''LessOr'' then truth (a \<le> b)
      else if name = ''Greater'' then truth (a > b)
      else if name = ''GreaterOr'' then truth (a \<ge> b)
      else if name = ''Equal'' then truth (a = b)
      else if name = ''NotEqual'' then truth (a \<noteq> b)
      else if name = ''Add'' then a + b
      else if name = ''Subtract'' then a - b
      else if name = ''Multiply'' then a * b
      else 0)"
| "apply_builtin name [a] = (if name = ''Not'' then truth (a = 0) else 0)"
| "apply_builtin name vs = 0"

lemma size_list_snd_le:
  "size_list (\<lambda>x. size (snd x)) kw \<le> size_list (size_prod (\<lambda>x. 0) size) kw"
  by (induction kw) auto

lemma size_list_snd_less:
  "2 * size_list (\<lambda>x. size (snd x)) kw < Suc (2 * size_list (size_prod (\<lambda>x. 0) size) kw)"
  using size_list_snd_le[of kw] by simp


text \<open>
  Modelled from the spec: the evaluation itself, on a state made of the registers and memory cells
  and of the trace of calls.
\<close>

function eval ::
    "nat \<Rightarrow> (string \<Rightarrow> real) \<Rightarrow> node \<Rightarrow> (loc \<Rightarrow> real) \<times> string list
       \<Rightarrow> (real \<times> ((loc \<Rightarrow> real) \<times> string list)) option"
  and eval_list ::
    "nat \<Rightarrow> (string \<Rightarrow> real) \<Rightarrow> node list \<Rightarrow> (loc \<Rightarrow> real) \<times> string list
       \<Rightarrow> (real list \<times> ((loc \<Rightarrow> real) \<times> string list)) option"
where
  "eval fuel results (ValueNode v) s = Some (v, s)"
| "eval fuel results (RefNode r) s = Some (fst s (Reg r), s)"
| "eval fuel results (AssignNode r v) s =
     (case eval fuel results v s of
        None \<Rightarrow> None
      | Some (x, s1) \<Rightarrow> Some (x, ((fst s1)(Reg r := x), snd s1)))"
| "eval fuel results (GetNode b i off) s =
     (case eval fuel results off s of
        None \<Rightarrow> None
      | Some (x, s1) \<Rightarrow> Some (fst s1 (Mem b i x), s1))"
| "eval fuel results (SetNode b i off v) s =
     (case eval fuel results off s of
        None \<Rightarrow> None
      | Some (x, s1) \<Rightarrow>
          (case eval fuel results v s1 of
             None \<Rightarrow> None
           | Some (y, s2) \<Rightarrow> Some (y, ((fst s2)(Mem b i x := y), snd s2))))"
| "eval fuel results (ExecuteNode ns) s =
     (case eval_list fuel results ns s of
        None \<Rightarrow> None
      | Some (vs, s1) \<Rightarrow> Some (if vs = [] then 0 else last vs, s1))"
| "eval fuel results (FunctionNode name args) s =
     (case eval_list fuel results args s of
        None \<Rightarrow> None
      | Some (vs, s1) \<Rightarrow> Some (apply_builtin name vs, s1))"
| "eval fuel results (CallNode name args kwargs) s =
     (case eval_list fuel results (args @ map snd kwargs) s of
        None \<Rightarrow> None
      | Some (vs, s1) \<Rightarrow> Some (results name, (fst s1, snd s1 @ [name])))"
| "eval fuel results (StarredNode nested) s = None"
| "eval fuel results (IfNode c t e) s =
     (case eval fuel results c s of
        None \<Rightarrow> None
      | Some (x, s1) \<Rightarrow> if x \<noteq> 0 then eval fuel results t s1 else eval fuel results e s1)"
| "eval 0 results (WhileNode c b) s = None"
| "eval (Suc fuel) results (WhileNode c b) s =
     (case eval (Suc fuel) results c s of
        None \<Rightarrow> None
      | Some (x, s1) \<Rightarrow>
          if x \<noteq> 0 then
            (case eval (Suc fuel) results b s1 of
               None \<Rightarrow> None
             | Some (y, s2) \<Rightarrow> eval fuel results (WhileNode c b) s2)
          else Some (0, s1))"
| "eval_list fuel results [] s = Some ([], s)"
| "eval_list fuel results (n # ns) s =
     (case eval fuel results n s of
        None \<Rightarrow> None
      | Some (x, s1) \<Rightarrow>
          (case eval_list fuel results ns s1 of
             None \<Rightarrow> None
           | Some (xs, s2) \<Rightarrow> Some (x # xs, s2)))"
  by pat_completeness auto
termination
  by (relation "inv_image (less_than <*lex*> less_than)
        (\<lambda>x. case x of
           Inl (fuel, r, n, s) \<Rightarrow> (fuel, 2 * size n)
         | Inr (fuel, r, ns, s) \<Rightarrow> (fuel, 2 * size_list size ns + 1))")
     (auto simp: size_list_append o_def size_list_snd_less)

definition trace_of :: "(real \<times> ((loc \<Rightarrow> real) \<times> string list)) option \<Rightarrow> string list option" where
  "trace_of r = map_option (\<lambda>(v, s). snd s) r"


section \<open>Notions used to state the properties\<close>





text \<open>
  The right fold of binary applications of the built-in \<open>op\<close> over the registers
  of the \<open>n\<close> surplus arguments, in argument order: \<open>op(r1, op(r2, ... rn))\<close>.
\<close>

definition right_fold :: "compiled_function \<Rightarrow> string \<Rightarrow> nat \<Rightarrow> node" where
  "right_fold f op n =
     foldr (\<lambda>left right. FunctionNode op [left, right]) (map (va_ref f) [0..<n - 1]) (va_ref f (n - 1))"






text \<open>
  The outcome of trying registrations in order, in the spec's words but with the
  code's rule for the error: the first outcome that is not a \<^verbatim>\<open>TypeError\<close>, or
  else the last one.
\<close>

definition is_TypeError :: "error + 'a \<Rightarrow> bool" where
  "is_TypeError r = (case r of Inl (TypeError m) \<Rightarrow> True | _ \<Rightarrow> False)"

fun first_accepted :: "error + node \<Rightarrow> (error + node) list \<Rightarrow> error + node" where
  "first_accepted r [] = r"
| "first_accepted r (r' # rs) = (if is_TypeError r then first_accepted r' rs else r)"

text \<open>
  A module \<open>m\<close> whose names resolve to themselves, the numbers that its functions return in two
  runs, and the trees that the compiler builds for \<open>a() < b() < c()\<close> and for the body
  \<open>if cond: return 1\<close> followed by \<open>g()\<close>.
\<close>

definition example_module :: module_env where
  "example_module =
     Module (\<lambda>e. case e of Name x \<Rightarrow> ''m.'' @ x | _ \<Rightarrow> ''m.other'')
            (\<lambda>e. Inl (AttributeError ''not addressable''))"

definition example_results :: "string \<Rightarrow> real" where
  "example_results name = (if name = ''m.a'' then 1 else if name = ''m.b'' then 2 else 3)"

definition chain_tree :: node where
  "chain_tree =
     IfNode
       (IfNode (ValueNode 1)
         (ExecuteNode
           [AssignNode ''$1'' (CallNode ''m.a'' [] []),
            AssignNode ''$2'' (CallNode ''m.b'' [] []),
            FunctionNode ''Less'' [RefNode ''$1'', RefNode ''$2'']])
         (ValueNode 0))
       (ExecuteNode
         [AssignNode ''$3'' (CallNode ''m.b'' [] []),
          AssignNode ''$4'' (CallNode ''m.c'' [] []),
          FunctionNode ''Less'' [RefNode ''$3'', RefNode ''$4'']])
       (ValueNode 0)"

definition return_tree :: node where
  "return_tree =
     ExecuteNode
       [AssignNode ''$5'' (ValueNode 0), AssignNode ''$6'' (ValueNode 0),
        IfNode (RefNode ''m$f$cond'')
         (ExecuteNode
           [AssignNode ''$2'' (ValueNode 1),
            AssignNode ''$1'' (ValueNode 1),
            AssignNode ''$4'' (IfNode (RefNode ''$1'') (RefNode ''$2'') (ValueNode 0)),
            AssignNode ''$6'' (IfNode (RefNode ''$1'') (RefNode ''$2'') (RefNode ''$4'')),
            AssignNode ''$5'' (RefNode ''$1''),
            IfNode (RefNode ''$1'') (AssignNode ''$6'' (RefNode ''$2'')) (ValueNode 0)])
         (ValueNode 0),
        AssignNode ''$7'' (CallNode ''m.g'' [] []),
        IfNode (RefNode ''$5'') (RefNode ''$6'') (RefNode ''$7'')]"

definition short_results :: "string \<Rightarrow> real" where
  "short_results name = (if name = ''m.a'' then 2 else if name = ''m.b'' then 1 else 3)"


section \<open>Empty branches of a conditional\<close>

lemma F_If_one_empty:
  "\<not> (empty_node t \<and> empty_node e) \<Longrightarrow>
     \<exists>t' e'. F_If c t e = IfNode c t' e' \<and> \<not> empty_node t' \<and> \<not> empty_node e'"
  by (auto simp: F_If_def F_true_def F_false_def)

lemma create_function_node_rejects:
  "e \<in> set nodes \<Longrightarrow> empty_node e \<Longrightarrow> \<exists>m. create_function_node name nodes = Inl (ValueError m)"
  by (auto simp: create_function_node_def list_ex_iff)

text \<open>
  C5.  With both branches empty, \<^verbatim>\<open>Functions.If\<close> replaces only the then-branch:
  the node it returns still has the empty sequence as its else operand.
\<close>

theorem F_If_both_empty_keeps_empty_orelse:
  "F_If c (ExecuteNode []) (ExecuteNode []) = IfNode c (ValueNode 1) (ExecuteNode [])"
  by (simp add: F_If_def F_true_def)

section \<open>Binding arguments at a call\<close>































lemma char_of_digits [simp]:
  "char_of (48::nat) = CHR ''0''" "char_of (49::nat) = CHR ''1''"
  "char_of (50::nat) = CHR ''2''" "char_of (51::nat) = CHR ''3''"
  "char_of (52::nat) = CHR ''4''" "char_of (53::nat) = CHR ''5''"
  "char_of (54::nat) = CHR ''6''" "char_of (55::nat) = CHR ''7''"
  "char_of (56::nat) = CHR ''8''" "char_of (57::nat) = CHR ''9''"
  by (simp_all add: char_of_def bit_iff_odd)

















section \<open>Variadic resolution\<close>

lemma resolve_nested_foldr:
  "resolve_nested f (Suc m) unit = Inr (foldr unit (map (va_ref f) [0..<m]) (va_ref f m))"
  by (simp add: resolve_nested_def foldr_conv_foldl rev_map)

lemma resolve_starred_nested:
  assumes "1 \<le> n"
  shows "resolve_starred f (FunctionNode op (pre @ [StarredNode True])) n =
     Inr (case pre of [] \<Rightarrow> right_fold f op n | a # _ \<Rightarrow> FunctionNode op [a, right_fold f op n])"
proof -
  obtain m where n: "n = Suc m" using assms by (cases n) auto
  show ?thesis
    by (cases pre) (simp_all add: n resolve_nested_foldr ebind_def right_fold_def)
qed

















section \<open>Overloaded registrations\<close>

lemma try_overloads_first_accepted:
  "try_overloads ovs (TypeError m) args kwargs =
     first_accepted (Inl (TypeError m)) (map (\<lambda>ov. call ov args kwargs) ovs)"
proof (induction ovs arbitrary: m)
  case Nil
  show ?case by simp
next
  case (Cons ov ovs)
  show ?case
  proof (cases "call ov args kwargs")
    case (Inl e)
    then show ?thesis using Cons by (cases e; cases ovs) (simp_all add: is_TypeError_def)
  next
    case (Inr r)
    then show ?thesis by (cases ovs) (simp_all add: is_TypeError_def)
  qed
qed

lemma va_ref_overloaded:
  "va_ref (CompiledOverloadedFunction n p b ovs) = va_ref (CompiledFunction n p b)"
  by (rule ext) (simp add: va_ref_def va_key_def param_def)

lemma resolve_nested_overloaded:
  "resolve_nested (CompiledOverloadedFunction n p b ovs) k u = resolve_nested (CompiledFunction n p b) k u"
  by (simp only: resolve_nested_def va_ref_overloaded)

lemma resolve_starred_list_cong:
  "(\<And>x. x \<in> set xs \<Longrightarrow> resolve_starred f x k = resolve_starred g x k) \<Longrightarrow>
     resolve_starred_list f xs k = resolve_starred_list g xs k"
  by (induction xs) auto

lemma resolve_starred_overloaded:
  "resolve_starred (CompiledOverloadedFunction n p b ovs) x k = resolve_starred (CompiledFunction n p b) x k"
proof (induction x)
  case (FunctionNode name args)
  then have "resolve_starred_list (CompiledOverloadedFunction n p b ovs) args k =
      resolve_starred_list (CompiledFunction n p b) args k"
    by (intro resolve_starred_list_cong) auto
  then show ?case
    by (simp only: resolve_starred.simps va_ref_overloaded resolve_nested_overloaded)
next
  case (CallNode name args kwargs)
  then have "resolve_starred_list (CompiledOverloadedFunction n p b ovs) args k =
      resolve_starred_list (CompiledFunction n p b) args k"
    by (intro resolve_starred_list_cong) auto
  then show ?case
    by (simp only: resolve_starred.simps va_ref_overloaded resolve_nested_overloaded)
next
  case (ExecuteNode ns)
  then have "resolve_starred_list (CompiledOverloadedFunction n p b ovs) ns k =
      resolve_starred_list (CompiledFunction n p b) ns k"
    by (intro resolve_starred_list_cong) auto
  then show ?case by simp
qed simp_all

lemma bind_surplus_overloaded:
  "bind_surplus (CompiledOverloadedFunction n p b ovs) i xs d = bind_surplus (CompiledFunction n p b) i xs d"
  by (induction xs arbitrary: i d) (simp_all add: va_key_def)

lemma bind_defaults_overloaded:
  "bind_defaults (CompiledOverloadedFunction n p b ovs) ps d = bind_defaults (CompiledFunction n p b) ps d"
  by (induction ps arbitrary: d) (simp_all split: option.splits)

lemma assign_all_overloaded:
  "assign_all (CompiledOverloadedFunction n p b ovs) d = assign_all (CompiledFunction n p b) d"
  by (induction d) (auto simp: param_def)

lemma base_call_overloaded:
  "base_call (CompiledOverloadedFunction n p b ovs) args kwargs = base_call (CompiledFunction n p b) args kwargs"
  by (simp add: base_call_def bind_args_def va_declared_def bind_surplus_overloaded
      bind_defaults_overloaded assign_all_overloaded resolve_starred_overloaded Let_def cong: if_cong)

text \<open>
  C8 as amended.  An overloaded function tries the base registration and then its
  overloads in registration order; the call's outcome is the first outcome that is
  not a \<^verbatim>\<open>TypeError\<close> (a result, or an exception of another class, which is not
  caught), and when every registration raises \<^verbatim>\<open>TypeError\<close> it is the
  \<^verbatim>\<open>TypeError\<close> of the last overload tried.
\<close>

theorem overloaded_call_first_accepted:
  "call (CompiledOverloadedFunction n p b ovs) args kwargs =
     first_accepted (call (CompiledFunction n p b) args kwargs) (map (\<lambda>ov. call ov args kwargs) ovs)"
proof (cases "base_call (CompiledFunction n p b) args kwargs")
  case (Inl e)
  then show ?thesis
    by (cases e; cases ovs)
       (simp_all add: base_call_overloaded try_overloads_first_accepted is_TypeError_def)
next
  case (Inr r)
  then show ?thesis by (cases ovs) (simp_all add: base_call_overloaded is_TypeError_def)
qed

text \<open>
  C8 as stated fails: with a base registration \<open>f(a)\<close> and an overload
  \<open>f(a, b, c)\<close>, a call with two arguments fails in both, and the error raised is
  the overload's ("missing parameter c"), not the base registration's ("too many
  arguments").
\<close>

theorem overloaded_call_last_error_counterexample:
  "base_call (CompiledOverloadedFunction ''m.f'' (ParameterList [Parameter ''a'' None] None) (RefNode ''m$f$a'')
       [CompiledFunction ''m.f'' (ParameterList [Parameter ''a'' None, Parameter ''b'' None, Parameter ''c'' None] None) (RefNode ''m$f$c'')])
     [ValueNode 1, ValueNode 2] [] = Inl (TypeError ''Too many arguments for m.f'')
   \<and> call (CompiledOverloadedFunction ''m.f'' (ParameterList [Parameter ''a'' None] None) (RefNode ''m$f$a'')
       [CompiledFunction ''m.f'' (ParameterList [Parameter ''a'' None, Parameter ''b'' None, Parameter ''c'' None] None) (RefNode ''m$f$c'')])
     [ValueNode 1, ValueNode 2] [] = Inl (TypeError ''Function m.f missing parameter c'')"
  by (simp add: base_call_def bind_args_def va_declared_def ebind_def dict_has_def)

section \<open>Linking\<close>

lemma open_call_splice: "list_ex open_call (splice n) = open_call n"
  by (cases n) simp_all

lemma open_call_concat_splice: "list_ex open_call (concat (map splice ns)) = list_ex open_call ns"
  by (induction ns) (simp_all add: open_call_splice)

lemma open_call_F_Execute: "open_call (F_Execute ns) = list_ex open_call ns"
proof (cases "length ns = 1")
  case True
  then obtain n where "ns = [n]" by (cases ns) auto
  then show ?thesis by (simp add: F_Execute_def)
next
  case False
  then show ?thesis by (simp add: F_Execute_def open_call_concat_splice)
qed

lemma open_call_F_Assign: "F_Assign name v = Inr r \<Longrightarrow> open_call r = open_call v"
proof (induction name v arbitrary: r rule: F_Assign.induct)
  case (1 name ns)
  then obtain a where ne: "ns \<noteq> []" and a: "F_Assign name (last ns) = Inr a"
    and r: "r = F_Execute (butlast ns @ [a])"
    by (auto split: if_splits sum.splits)
  have "open_call a = open_call (last ns)" using 1(1)[OF ne a] .
  moreover have "list_ex open_call ns = (list_ex open_call (butlast ns) \<or> open_call (last ns))"
    using ne by (subst append_butlast_last_id[symmetric, OF ne]) (simp del: append_butlast_last_id)
  ultimately show ?case by (simp add: r open_call_F_Execute)
qed auto

lemma open_call_F_If: "open_call (F_If c t e) = (open_call c \<or> open_call t \<or> open_call e)"
  by (cases t; cases e) (auto simp: F_If_def F_true_def F_false_def)

text \<open>
  Outside the operands of \<^verbatim>\<open>GetNode\<close> and \<^verbatim>\<open>SetNode\<close> linking does inline every
  call: no call is left in a visited position of a tree it returns.
\<close>

lemma link_no_open_call:
  "link_node fs n recursive = Inr t \<Longrightarrow> \<not> open_call t"
  "link_list fs ns recursive = Inr ts \<Longrightarrow> \<not> list_ex open_call ts"
  "link_kwargs fs kw recursive = Inr kw' \<Longrightarrow> True"
proof (induction fs n recursive and fs ns recursive and fs kw recursive
    arbitrary: t and ts and kw' rule: link_node_link_list_link_kwargs.induct)
  case (1 fs name args kwargs recursive)
  then show ?case
    by (auto simp: ebind_def split: sum.splits if_splits option.splits)
next
  case (8 fs name v recursive)
  then show ?case
    by (auto simp: ebind_def open_call_F_Assign split: sum.splits)
next
  case (9 fs ns recursive)
  then show ?case by (auto simp: ebind_def open_call_F_Execute split: sum.splits)
next
  case (10 fs c t e recursive)
  then show ?case by (auto simp: ebind_def open_call_F_If split: sum.splits)
qed (auto simp: ebind_def split: sum.splits)

text \<open>
  C3.  A call that stands as the value of a \<^verbatim>\<open>SetNode\<close> is not visited: linking
  a function whose body stores the result of \<open>g()\<close> in memory returns the body with
  its \<^verbatim>\<open>CallNode\<close>, and a function that calls itself there links without the
  "recursive call" error.
\<close>

theorem link_leaves_calls_under_set:
  "link (CompileOutput ''main''
      [(''main'', CompiledFunction ''main'' (ParameterList [] None)
                    (SetNode 0 0 (ValueNode 0) (CallNode ''g'' [] []))),
       (''g'', CompiledFunction ''g'' (ParameterList [] None) (ValueNode 1))])
     = Inr (SetNode 0 0 (ValueNode 0) (CallNode ''g'' [] []))
   \<and> has_call (SetNode 0 0 (ValueNode 0) (CallNode ''g'' [] []))
   \<and> link (CompileOutput ''main''
      [(''main'', CompiledFunction ''main'' (ParameterList [] None)
                    (SetNode 0 0 (ValueNode 0) (CallNode ''main'' [] [])))])
     = Inr (SetNode 0 0 (ValueNode 0) (CallNode ''main'' [] []))"
  by (simp add: link_def)

text \<open>Direct recursion is refused; two calls of one function side by side are not.\<close>

lemma link_examples:
  "link (CompileOutput ''main'' [(''main'', CompiledFunction ''main'' (ParameterList [] None) (CallNode ''main'' [] []))])
     = Inl (RuntimeError ''Recursive call detected: main'')"
  "link (CompileOutput ''main'' [(''main'', CompiledFunction ''main'' (ParameterList [] None) (ExecuteNode [CallNode ''g'' [] [], CallNode ''g'' [] []])), (''g'', CompiledFunction ''g'' (ParameterList [] None) (ValueNode 1))])
     = Inr (ExecuteNode [ValueNode 1, ValueNode 1])"
  by (simp_all add: link_def ebind_def base_call_def bind_args_def F_Execute_def)

section \<open>Constant folding of a product with a zero literal\<close>

lemma fold_quad_zero_times:
  "\<not> is_value e \<Longrightarrow> fold_quad False [ValueExpr 0, e] = [e]"
  by (simp add: fold_quad_def)

lemma fold_quad_zero_plus:
  "\<not> is_value e \<Longrightarrow> fold_quad True [ValueExpr 0, e] = [e]"
  by (simp add: fold_quad_def)

text \<open>
  C10 as amended.  When the fold of \<open>e\<close> is an expression \<open>e'\<close> that is not a
  literal, \<^verbatim>\<open>ConstantFold\<close> turns \<open>Multiply(Value(0), e)\<close> into \<open>e'\<close>: the zero
  factor is dropped and the product is not collapsed to the literal 0.  The same
  happens to the zero summand of \<open>Add(Value(0), e)\<close>.
\<close>

theorem constant_fold_drops_zero_factor:
  assumes "constant_fold e = Inr e'" "\<not> is_value e'"
  shows "constant_fold (FunctionExpr ''Multiply'' [ValueExpr 0, e]) = Inr e'
       \<and> constant_fold (FunctionExpr ''Add'' [ValueExpr 0, e]) = Inr e'"
  using assms
  by (simp add: ebind_def fold_method_def fold_Multiply_def fold_Add_def
      fold_quad_zero_times fold_quad_zero_plus)

theorem constant_fold_drops_zero_factor_witness:
  "constant_fold (RefExpr ''x'') = Inr (RefExpr ''x'') \<and> \<not> is_value (RefExpr ''x'')
   \<and> constant_fold (FunctionExpr ''Multiply'' [ValueExpr 0, RefExpr ''x'']) = Inr (RefExpr ''x'')"
  using constant_fold_drops_zero_factor[of "RefExpr ''x''" "RefExpr ''x''"] by simp

text \<open>
  C10 as stated fails: the result is the fold of \<open>e\<close>, not \<open>e\<close>.  For
  \<open>e = Add(x, Value(0))\<close> the product folds to \<open>x\<close>, and for \<open>e = Add(1, 2)\<close>, a
  call and so not a literal, it folds to the literal 1.
\<close>

theorem constant_fold_zero_product_counterexample:
  "\<not> is_value (FunctionExpr ''Add'' [RefExpr ''x'', ValueExpr 0])
   \<and> constant_fold (FunctionExpr ''Multiply'' [ValueExpr 0, FunctionExpr ''Add'' [RefExpr ''x'', ValueExpr 0]])
       = Inr (RefExpr ''x'')
   \<and> \<not> is_value (FunctionExpr ''Add'' [ValueExpr 1, ValueExpr 2])
   \<and> constant_fold (FunctionExpr ''Multiply'' [ValueExpr 0, FunctionExpr ''Add'' [ValueExpr 1, ValueExpr 2]])
       = Inr (ValueExpr 1)"
  by (simp add: ebind_def fold_method_def fold_Multiply_def fold_Add_def fold_quad_def)

section \<open>Switch elimination\<close>

text \<open>
  C6.  A switch on the literal 1 whose first label is the register \<open>x\<close> and whose
  second label is the literal 1 is eliminated in favour of the second case, although
  a label is not a literal.
\<close>

theorem switch_elimination_past_non_literal_label:
  "switch_elimination
     (SwitchFlow ''r'' (ValueExpr 1)
        [(RefExpr ''x'', ExecuteFlow [ValueExpr 10] None),
         (ValueExpr 1, ExecuteFlow [ValueExpr 20] None)] None None)
   = Inr (ExecuteFlow [AssignStatement ''r'' (ValueExpr 20) True] None)"
  by (simp add: ebind_def)

section \<open>Lowering a conditional\<close>

text \<open>
  C7 as amended.  When the condition of an \<^verbatim>\<open>IfNode\<close> lowers to a value (anything
  but \<^verbatim>\<open>None\<close>) and both branches lower, the lowering appends one switch to the flow
  the condition left: its condition is that value itself, its only case is the literal
  0 with the lowered else-branch, its default is the lowered then-branch, both branches
  lowered on their own from the empty flow, and its result register is fresh; the
  value of the conditional is a reference to that register.
\<close>

theorem transform_IfNode_switch:
  assumes "transform_node fmt c st = Inr (Some cond, st1)"
    and "transform fmt t (snd st1 + 1) = Inr (then_flow, n2)"
    and "transform fmt e n2 = Inr (orelse, n3)"
  shows "transform_node fmt (IfNode c t e) st =
     Inr (Some (RefExpr (''$'' @ str_nat (snd st1 + 1))),
          (attach (fst st1)
             (SwitchFlow (''$'' @ str_nat (snd st1 + 1)) cond
                [(ValueExpr 0, orelse)] (Some then_flow) None),
           n3))"
  using assms by (simp add: ebind_def not_none_def anonymous_def append_flow_def)

lemma transform_examples:
  "transform_node fmt (RefNode ''x'') (ExecuteFlow [] None, 0) = Inr (Some (RefExpr ''x''), (ExecuteFlow [] None, 0))"
  "transform fmt (ValueNode 1) 1 = Inr (ExecuteFlow [ValueExpr 1] None, 1)"
  "transform fmt (ValueNode 2) 1 = Inr (ExecuteFlow [ValueExpr 2] None, 1)"
  by (simp_all add: ebind_def append_items_def)

theorem transform_IfNode_switch_witness:
  "transform_node (\<lambda>n. []) (IfNode (RefNode ''x'') (ValueNode 1) (ValueNode 2)) (ExecuteFlow [] None, 0) =
     Inr (Some (RefExpr ''$1''),
          (ExecuteFlow [] (Some (SwitchFlow ''$1'' (RefExpr ''x'')
             [(ValueExpr 0, ExecuteFlow [ValueExpr 2] None)]
             (Some (ExecuteFlow [ValueExpr 1] None)) None)), 1))"
  using transform_IfNode_switch[OF transform_examples(1), of "\<lambda>n. []" "ValueNode 1" "ExecuteFlow [ValueExpr 1] None" 1
      "ValueNode 2" "ExecuteFlow [ValueExpr 2] None" 1]
    transform_examples(2,3)
  by simp

text \<open>
  A branch whose value is a statement lowers as well: in
  \<open>If(x, y := Set(0, 0, 0, 1), 2)\<close> the then-branch assigns the \<^verbatim>\<open>SetStatement\<close> itself
  to \<open>y\<close>, and the conditional is a switch as above.
\<close>

lemma transform_statement_value:
  "transform fmt (AssignNode ''y'' (SetNode 0 0 (ValueNode 0) (ValueNode 1))) 1 =
     Inr (ExecuteFlow
            [AssignStatement ''$2'' (ValueExpr 0) True,
             AssignStatement ''$3'' (ValueExpr 1) True,
             AssignStatement ''y'' (SetStatement 0 0 (RefExpr ''$2'') (RefExpr ''$3'')) True] None, 3)"
  "transform_node fmt
     (IfNode (RefNode ''x'') (AssignNode ''y'' (SetNode 0 0 (ValueNode 0) (ValueNode 1))) (ValueNode 2))
     (ExecuteFlow [] None, 0) =
     Inr (Some (RefExpr ''$1''),
          (ExecuteFlow [] (Some (SwitchFlow ''$1'' (RefExpr ''x'')
             [(ValueExpr 0, ExecuteFlow [ValueExpr 2] None)]
             (Some (ExecuteFlow
                [AssignStatement ''$2'' (ValueExpr 0) True,
                 AssignStatement ''$3'' (ValueExpr 1) True,
                 AssignStatement ''y'' (SetStatement 0 0 (RefExpr ''$2'') (RefExpr ''$3'')) True] None))
             None)), 3))"
  by (simp_all add: ebind_def not_none_def anonymous_def append_flow_def append_items_def lift_def)

text \<open>
  C7 as stated fails: lowering \<open>If(x, 1, 2)\<close> gives a switch with one literal case
  and a default, on the condition \<open>x\<close> itself, a register of the program that no
  statement before the switch assigns.  (No message is formatted on the way, so the
  text of nodes is taken empty.)
\<close>

theorem transform_IfNode_counterexample:
  "transform (\<lambda>n. []) (IfNode (RefNode ''x'') (ValueNode 1) (ValueNode 2)) 0 =
     Inr (ExecuteFlow []
            (Some (SwitchFlow ''$1'' (RefExpr ''x'')
               [(ValueExpr 0, ExecuteFlow [ValueExpr 2] None)]
               (Some (ExecuteFlow [ValueExpr 1] None))
               (Some (ExecuteFlow [RefExpr ''$1''] None)))), 1)"
  by (simp add: ebind_def not_none_def anonymous_def append_flow_def append_items_def)

section \<open>Chained comparisons\<close>

lemma compile_chain:
  "compile_expr
     (Compare (Call (Name ''a'') [] [])
        [(Lt, Call (Name ''b'') [] []), (Lt, Call (Name ''c'') [] [])])
     ([FunctionContext [] (Some ''m.f'') (Some example_module) []], 0)
   = Inr (chain_tree,
          ([FunctionContext [Name ''a'', Name ''b'', Name ''c''] (Some ''m.f'') (Some example_module) []], 4))"
  by (simp add: chain_tree_def example_module_def ebind_def anonymous_def build_kwargs_def add_call_def
      operands_def create_function_node_def F_Execute_def F_If_def F_true_def F_false_def)


lemma eval_chain:
  "trace_of (eval fuel example_results chain_tree (\<lambda>l. 0, []))
     = Some [''m.a'', ''m.b'', ''m.b'', ''m.c'']"
  by (simp add: chain_tree_def trace_of_def example_results_def truth_def)


text \<open>
  When the first comparison fails, the third operand is not evaluated.
\<close>

lemma eval_chain_short_circuit:
  "trace_of (eval fuel short_results chain_tree (\<lambda>l. 0, [])) = Some [''m.a'', ''m.b'']"
  by (simp add: chain_tree_def trace_of_def short_results_def truth_def)


text \<open>
  C1.  \<open>__compile_Compare__\<close> compiles the middle operand of \<open>a() < b() < c()\<close> once as the right
  operand of the first comparison and once more as the left operand of the second: the tree it
  builds calls \<open>b\<close> twice when the first comparison holds, so an operand is evaluated more than
  once in one execution.
\<close>

theorem compare_chain_evaluates_middle_operand_twice:
  "map_sum id fst
     (compile_expr
        (Compare (Call (Name ''a'') [] [])
           [(Lt, Call (Name ''b'') [] []), (Lt, Call (Name ''c'') [] [])])
        ([FunctionContext [] (Some ''m.f'') (Some example_module) []], 0))
     = Inr chain_tree
   \<and> trace_of (eval fuel example_results chain_tree (\<lambda>l. 0, []))
       = Some [''m.a'', ''m.b'', ''m.b'', ''m.c'']"
  by (simp only: compile_chain eval_chain map_sum.simps fst_conv id_apply simp_thms)


section \<open>Return inside a conditional\<close>

lemma compile_return:
  "compile_stmt
     (FunctionDef [If (Name ''cond'') [Return (Some (Constant (Num 1)))] [],
                   Expr (Call (Name ''g'') [] [])])
     ([FunctionContext [] (Some ''m.f'') (Some example_module) [''cond'']], 0)
   = Inr (return_tree,
          ([FunctionContext [Name ''g''] (Some ''m.f'') (Some example_module) [''cond'']], 7))"
  by (simp add: return_tree_def example_module_def ebind_def anonymous_def build_kwargs_def add_call_def
      new_block_def exit_frame_def set_block_def set_may_return_def set_return_flag_def
      set_return_value_def top_frame_def may_return_wrap_def truthy_def return_arm_def
      var_def replace_dots_def Let_def
      F_Execute_def F_If_def F_true_def F_false_def F_empty_def)


lemma eval_return:
  "trace_of (eval fuel example_results return_tree ((\<lambda>l. 0)(Reg ''m$f$cond'' := 1), []))
     = Some [''m.g'']"
  by (simp add: return_tree_def trace_of_def example_results_def)


text \<open>
  C2.  For the body \<open>if cond: return 1\<close> followed by \<open>g()\<close>, \<open>_compile_block\<close> and \<open>_may_return\<close>
  build a tree that first assigns the value of the trailing statements to a fresh register and
  only then tests the return flag: run with \<open>cond\<close> true, the tree calls \<open>g\<close>, so the trailing
  statement is executed although the function has returned.
\<close>

theorem trailing_statements_run_after_return:
  "map_sum id fst
     (compile_stmt
        (FunctionDef [If (Name ''cond'') [Return (Some (Constant (Num 1)))] [],
                      Expr (Call (Name ''g'') [] [])])
        ([FunctionContext [] (Some ''m.f'') (Some example_module) [''cond'']], 0))
     = Inr return_tree
   \<and> trace_of (eval fuel example_results return_tree ((\<lambda>l. 0)(Reg ''m$f$cond'' := 1), []))
       = Some [''m.g'']"
  by (simp only: compile_return eval_return map_sum.simps fst_conv id_apply simp_thms)


end
